theory Spec2Isabelle
  imports Complex_Main
begin

section \<open>Synthetic astronomical images: \<^verbatim>\<open>photutils/datasets/make.py\<close>\<close>

text \<open>
  The module builds toy images: 2D Gaussian sources summed on a pixel grid, plus Gaussian or
  Poisson noise. Its six functions are embedded below in the order of the source file.

  Conventions of the embedding.
  \<^item> A Python \<^verbatim>\<open>float\<close> (and a float64 pixel) is a \<^typ>\<open>real\<close>; rounding, \<^verbatim>\<open>inf\<close> and
    \<^verbatim>\<open>nan\<close> are not represented.
  \<^item> An exception is a value of \<^verbatim>\<open>error\<close>; a function that can raise returns
    \<^verbatim>\<open>error + 'a\<close>, with \<^verbatim>\<open>Inl\<close> for the exception.
  \<^item> A shape is a pair of natural numbers \<^verbatim>\<open>(rows, columns)\<close>, as numpy shapes are.
  \<^item> The functions of numpy.random and of astropy (modeling, convolution, units, wcs and
    io.fits) are not part of this module: they are parameters (two records of functions),
    and every theorem holds for all of them.
  \<^item> The pseudo-random generators live in a store, which the functions that draw samples
    take and return.
\<close>

subsection \<open>Exceptions\<close>

datatype error =
    ValueError string
  | KeyError string
  | IndexError string
  | Unmodelled string  \<comment> \<open>a library behaviour outside this embedding\<close>

definition bindE :: "error + 'a \<Rightarrow> ('a \<Rightarrow> error + 'b) \<Rightarrow> error + 'b" where
  "bindE m f = (case m of Inl e \<Rightarrow> Inl e | Inr x \<Rightarrow> f x)"

subsection \<open>\<^verbatim>\<open>str.format\<close>\<close>

text \<open>
  \<^verbatim>\<open>make_noise_image\<close> builds one message with \<^verbatim>\<open>str.format\<close>. The embedding covers
  format strings whose replacement fields are argument names only: \<^verbatim>\<open>{}\<close>, \<^verbatim>\<open>{0}\<close>,
  \<^verbatim>\<open>{name}\<close>, with \<^verbatim>\<open>{{\<close> and \<^verbatim>\<open>}}\<close> as escaped braces. The string is read from left to
  right and the first error met is the one raised. A field name made of digits is a
  position in the positional arguments, an empty one takes the next position, and any other
  name is looked up among the keyword arguments, where a missing name raises
  \<^verbatim>\<open>KeyError\<close>. A field with an attribute, an index, a conversion or a format
  specification is reported as \<^verbatim>\<open>Unmodelled\<close>. The arguments are strings.
\<close>

datatype numbering = Unset | Auto nat | Manual

definition is_index :: "string \<Rightarrow> bool" where
  "is_index s = (s \<noteq> [] \<and> list_all (\<lambda>c. c \<in> set ''0123456789'') s)"

definition index_of :: "string \<Rightarrow> nat" where
  "index_of s = foldl (\<lambda>n c. 10 * n + (of_char c - 48)) 0 s"

definition positional :: "string list \<Rightarrow> nat \<Rightarrow> error + string" where
  "positional args i =
     (if i < length args then Inr (args ! i)
      else Inl (IndexError ''Replacement index out of range for positional args tuple''))"

definition get_field ::
  "numbering \<Rightarrow> string list \<Rightarrow> (string \<times> string) list \<Rightarrow> string \<Rightarrow> error + (string \<times> numbering)" where
  "get_field nb args kwargs name =
     (if list_ex (\<lambda>c. c \<in> set ''.[!:{'') name then Inl (Unmodelled name)
      else if name = [] then
        (case nb of
           Manual \<Rightarrow> Inl (ValueError
             ''cannot switch from manual field specification to automatic field numbering'')
         | Unset \<Rightarrow> bindE (positional args 0) (\<lambda>s. Inr (s, Auto 1))
         | Auto n \<Rightarrow> bindE (positional args n) (\<lambda>s. Inr (s, Auto (Suc n))))
      else if is_index name then
        (case nb of
           Auto n \<Rightarrow> Inl (ValueError
             ''cannot switch from automatic field numbering to manual field specification'')
         | _ \<Rightarrow> bindE (positional args (index_of name)) (\<lambda>s. Inr (s, Manual)))
      else
        (case map_of kwargs name of
           None \<Rightarrow> Inl (KeyError name)
         | Some v \<Rightarrow> Inr (v, nb)))"

definition prepend :: "string \<Rightarrow> error + string \<Rightarrow> error + string" where
  "prepend s r = (case r of Inl e \<Rightarrow> Inl e | Inr t \<Rightarrow> Inr (s @ t))"

text \<open>
  The fourth argument is \<^verbatim>\<open>None\<close> in literal text and \<^verbatim>\<open>Some name\<close> inside a replacement
  field, \<^verbatim>\<open>name\<close> being the part of the field read so far.
\<close>

fun format_from ::
  "numbering \<Rightarrow> string list \<Rightarrow> (string \<times> string) list \<Rightarrow> string option \<Rightarrow> string \<Rightarrow> error + string" where
  "format_from nb args kwargs None [] = Inr []"
| "format_from nb args kwargs None [c] =
     (if c = CHR ''{'' then Inl (ValueError ''Single '{' encountered in format string'')
      else if c = CHR ''}'' then Inl (ValueError ''Single '}' encountered in format string'')
      else Inr [c])"
| "format_from nb args kwargs None (c # d # cs) =
     (if c = CHR ''{'' then
        (if d = CHR ''{'' then prepend ''{'' (format_from nb args kwargs None cs)
         else format_from nb args kwargs (Some []) (d # cs))
      else if c = CHR ''}'' then
        (if d = CHR ''}'' then prepend ''}'' (format_from nb args kwargs None cs)
         else Inl (ValueError ''Single '}' encountered in format string''))
      else prepend [c] (format_from nb args kwargs None (d # cs)))"
| "format_from nb args kwargs (Some name) [] =
     Inl (ValueError ''expected '}' before end of string'')"
| "format_from nb args kwargs (Some name) (c # cs) =
     (if c = CHR ''}'' then
        (case get_field nb args kwargs name of
           Inl e \<Rightarrow> Inl e
         | Inr (s, nb') \<Rightarrow> prepend s (format_from nb' args kwargs None cs))
      else format_from nb args kwargs (Some (name @ [c])) cs)"

definition py_format :: "string \<Rightarrow> string list \<Rightarrow> (string \<times> string) list \<Rightarrow> error + string" where
  "py_format fmt args kwargs = format_from Unset args kwargs None fmt"

subsection \<open>Arrays\<close>

text \<open>
  A 2D numpy array is its shape and its rows. The shape is kept beside the rows because an
  array with no rows still has a number of columns.
\<close>

type_synonym shape = "nat \<times> nat"

record ndarray =
  shape :: shape
  rows :: "real list list"

definition well_shaped :: "ndarray \<Rightarrow> bool" where
  "well_shaped a =
     (length (rows a) = fst (shape a) \<and> list_all (\<lambda>r. length r = snd (shape a)) (rows a))"

definition pixel :: "ndarray \<Rightarrow> nat \<Rightarrow> nat \<Rightarrow> real" where
  "pixel a r c = rows a ! r ! c"

definition np_zeros :: "shape \<Rightarrow> ndarray" where
  "np_zeros s = \<lparr>shape = s, rows = replicate (fst s) (replicate (snd s) 0)\<rparr>"

text \<open>\<^verbatim>\<open>np.indices(s)\<close>: the array of row indices, then the array of column indices.\<close>

definition np_indices :: "shape \<Rightarrow> ndarray \<times> ndarray" where
  "np_indices s =
     (\<lparr>shape = s, rows = map (\<lambda>r. map (\<lambda>c. real r) [0..<snd s]) [0..<fst s]\<rparr>,
      \<lparr>shape = s, rows = map (\<lambda>r. map (\<lambda>c. real c) [0..<snd s]) [0..<fst s]\<rparr>)"

text \<open>
  Broadcasting of two dimensions: equal, or one of them 1. \<^verbatim>\<open>stretch\<close> repeats the only
  element of a list of length 1.
\<close>

definition broadcast_dim :: "nat \<Rightarrow> nat \<Rightarrow> nat option" where
  "broadcast_dim m n =
     (if m = n then Some m else if m = 1 then Some n else if n = 1 then Some m else None)"

definition stretch :: "nat \<Rightarrow> 'a list \<Rightarrow> 'a list" where
  "stretch n xs = (if length xs = n then xs else replicate n (hd xs))"

definition stretch_rows :: "shape \<Rightarrow> ndarray \<Rightarrow> real list list" where
  "stretch_rows s a = stretch (fst s) (map (stretch (snd s)) (rows a))"

definition np_add :: "ndarray \<Rightarrow> ndarray \<Rightarrow> error + ndarray" where
  "np_add a b =
     (case (broadcast_dim (fst (shape a)) (fst (shape b)),
            broadcast_dim (snd (shape a)) (snd (shape b))) of
        (Some h, Some w) \<Rightarrow>
          Inr \<lparr>shape = (h, w),
               rows = map2 (map2 (+)) (stretch_rows (h, w) a) (stretch_rows (h, w) b)\<rparr>
      | _ \<Rightarrow> Inl (ValueError ''operands could not be broadcast together''))"

text \<open>\<^verbatim>\<open>a += b\<close>: as \<^verbatim>\<open>a + b\<close>, but the result must have the shape of \<^verbatim>\<open>a\<close>.\<close>

definition np_iadd :: "ndarray \<Rightarrow> ndarray \<Rightarrow> error + ndarray" where
  "np_iadd a b =
     bindE (np_add a b) (\<lambda>c.
       if shape c = shape a then Inr c
       else Inl (ValueError ''non-broadcastable output operand''))"

subsection \<open>The libraries\<close>

text \<open>
  \<^verbatim>\<open>numpy.random\<close>, for a type \<^verbatim>\<open>'g\<close> of generator states. \<^verbatim>\<open>RandomState s\<close> is the
  generator seeded with \<^verbatim>\<open>s\<close>, where \<^verbatim>\<open>Inl msg\<close> is numpy's \<^verbatim>\<open>ValueError(msg)\<close> for a seed
  it rejects. A sampler takes the distribution's parameters, the size and the generator
  state, and returns the samples with the next state, or raises with the state unchanged.
  \<^verbatim>\<open>poisson_array\<close> is \<^verbatim>\<open>poisson\<close> called with an array of expectation values.
  Every sampler can raise: numpy rejects a negative scale or expectation, and a range of
  \<^verbatim>\<open>uniform\<close> whose width is not a finite float.
\<close>

record 'g numpy_random =
  RandomState :: "int \<Rightarrow> string + 'g"
  normal :: "real \<Rightarrow> real \<Rightarrow> shape \<Rightarrow> 'g \<Rightarrow> error + (ndarray \<times> 'g)"
  poisson :: "real \<Rightarrow> shape \<Rightarrow> 'g \<Rightarrow> error + (ndarray \<times> 'g)"
  poisson_array :: "ndarray \<Rightarrow> 'g \<Rightarrow> error + (ndarray \<times> 'g)"
  uniform :: "real \<Rightarrow> real \<Rightarrow> nat \<Rightarrow> 'g \<Rightarrow> error + (real list \<times> 'g)"

text \<open>
  What the functions return: an array, an array with a unit (\<^verbatim>\<open>Quantity\<close>), or an
  \<^verbatim>\<open>ImageHDU\<close>, which holds one of the two and an optional header. A unit is its name; a
  header, a WCS object and the dictionary a WCS object is made from are lists of cards.
\<close>

datatype pixels = Array ndarray | Quantity ndarray string

datatype card = Str string | Num int

type_synonym wcsdict = "(string \<times> card) list"

record image_hdu =
  hdu_data :: pixels
  hdu_header :: "wcsdict option"

datatype returned = Plain pixels | ImageHDU image_hdu

text \<open>
  \<^verbatim>\<open>astropy\<close>. \<^verbatim>\<open>Gaussian2D amplitude x_mean y_mean x_stddev y_stddev theta\<close> is a model, a
  function of \<^verbatim>\<open>x\<close> and \<^verbatim>\<open>y\<close>; \<^verbatim>\<open>discretize_model model x_range y_range mode factor\<close>
  is the model discretized on the pixel grid of the two ranges. \<^verbatim>\<open>u_Quantity\<close> is
  \<^verbatim>\<open>u.Quantity(image, unit=unit)\<close>, which raises for a unit that astropy cannot parse;
  \<^verbatim>\<open>WCS\<close>, \<^verbatim>\<open>to_header\<close> and \<^verbatim>\<open>fits_ImageHDU\<close> are \<^verbatim>\<open>WCS(d)\<close>, \<^verbatim>\<open>w.to_header()\<close> and
  \<^verbatim>\<open>fits.ImageHDU(image, header=header)\<close>, which can raise as well.
\<close>

type_synonym model = "real \<Rightarrow> real \<Rightarrow> real"

datatype discretize_mode = Center | Linear_interp | Oversample | Integrate

record astropy =
  Gaussian2D :: "real \<Rightarrow> real \<Rightarrow> real \<Rightarrow> real \<Rightarrow> real \<Rightarrow> real \<Rightarrow> model"
  discretize_model ::
    "model \<Rightarrow> int \<times> int \<Rightarrow> int \<times> int \<Rightarrow> discretize_mode \<Rightarrow> real \<Rightarrow> error + ndarray"
  u_Quantity :: "ndarray \<Rightarrow> string \<Rightarrow> error + pixels"
  WCS :: "wcsdict \<Rightarrow> error + wcsdict"
  to_header :: "wcsdict \<Rightarrow> error + wcsdict"
  fits_ImageHDU :: "pixels \<Rightarrow> wcsdict option \<Rightarrow> error + image_hdu"

text \<open>\<^verbatim>\<open>model(x, y)\<close> on two arrays of coordinates evaluates the model elementwise.\<close>

definition call_model :: "model \<Rightarrow> ndarray \<Rightarrow> ndarray \<Rightarrow> ndarray" where
  "call_model f x y = \<lparr>shape = shape x, rows = map2 (map2 f) (rows x) (rows y)\<rparr>"

text \<open>
  \<^verbatim>\<open>if unit is not None: image = u.Quantity(image, unit=unit)\<close>, the last step of
  \<^verbatim>\<open>make_noise_image\<close> and a step of \<^verbatim>\<open>make_gaussian_sources\<close>.
\<close>

definition with_unit :: "astropy \<Rightarrow> string option \<Rightarrow> ndarray \<Rightarrow> error + pixels" where
  "with_unit ap unit img = (case unit of None \<Rightarrow> Inr (Array img) | Some u \<Rightarrow> u_Quantity ap img u)"

subsection \<open>Generators and \<^verbatim>\<open>check_random_state\<close>\<close>

text \<open>
  The store holds numpy's global generator and the \<^verbatim>\<open>RandomState\<close> objects of the caller.
  A \<^verbatim>\<open>random_state\<close> argument is \<^verbatim>\<open>None\<close>, an integer seed, or one of these objects.
\<close>

datatype rng_ref = Global_rng | Rng_object nat

type_synonym 'g store = "rng_ref \<Rightarrow> 'g"

datatype random_state = RS_None | RS_Int int | RS_Object nat

datatype 'g prng = Shared rng_ref | Fresh 'g

text \<open>
  Modelled from the spec: \<^verbatim>\<open>check_random_state\<close> of \<^verbatim>\<open>photutils.utils\<close>, which is imported by
  the module and is not part of its source. The spec calls the generator seedable and states
  that the same seed gives the same outputs; the docstrings of the module give the argument as
  \<^verbatim>\<open>int or RandomState\<close>, optional. So: no argument is numpy's global generator, an integer is
  a new generator seeded with it, and a \<^verbatim>\<open>RandomState\<close> object is that object.
\<close>

definition check_random_state :: "'g numpy_random \<Rightarrow> random_state \<Rightarrow> error + 'g prng" where
  "check_random_state np seed =
     (case seed of
        RS_None \<Rightarrow> Inr (Shared Global_rng)
      | RS_Int s \<Rightarrow> (case RandomState np s of Inl msg \<Rightarrow> Inl (ValueError msg) | Inr g \<Rightarrow> Inr (Fresh g))
      | RS_Object a \<Rightarrow> Inr (Shared (Rng_object a)))"

definition prng_get :: "'g prng \<Rightarrow> 'g store \<Rightarrow> 'g" where
  "prng_get p st = (case p of Shared r \<Rightarrow> st r | Fresh g \<Rightarrow> g)"

definition prng_put :: "'g prng \<Rightarrow> 'g \<Rightarrow> 'g store \<Rightarrow> 'g store" where
  "prng_put p g st = (case p of Shared r \<Rightarrow> st(r := g) | Fresh _ \<Rightarrow> st)"

subsection \<open>\<^verbatim>\<open>make_noise_image\<close>\<close>

definition make_noise_image ::
  "'g numpy_random \<Rightarrow> astropy \<Rightarrow> shape \<Rightarrow> string \<Rightarrow> real option \<Rightarrow> real option \<Rightarrow>
     string option \<Rightarrow> random_state \<Rightarrow> 'g store \<Rightarrow> (error + pixels) \<times> 'g store" where
  \<open>make_noise_image np ap image_shape type mean stddev unit random_state st =
     (case mean of
        None \<Rightarrow> (Inl (ValueError ''"mean" must be input''), st)
      | Some mean \<Rightarrow>
         (case check_random_state np random_state of
            Inl e \<Rightarrow> (Inl e, st)
          | Inr prng \<Rightarrow>
             if type = ''gaussian'' then
               (case stddev of
                  None \<Rightarrow> (Inl (ValueError ''"stddev" must be input for Gaussian noise''), st)
                | Some stddev \<Rightarrow>
                   (case normal np mean stddev image_shape (prng_get prng st) of
                      Inl e \<Rightarrow> (Inl e, st)
                    | Inr (img, g) \<Rightarrow> (with_unit ap unit img, prng_put prng g st)))
             else if type = ''poisson'' then
               (case poisson np mean image_shape (prng_get prng st) of
                  Inl e \<Rightarrow> (Inl e, st)
                | Inr (img, g) \<Rightarrow> (with_unit ap unit img, prng_put prng g st))
             else
               (case py_format ''Invalid type: {0}. Use one of {"gaussian", "poisson"}.''
                       [type] [] of
                  Inl e \<Rightarrow> (Inl e, st)
                | Inr msg \<Rightarrow> (Inl (ValueError msg), st))))\<close>

subsection \<open>\<^verbatim>\<open>make_poisson_noise\<close>\<close>

definition make_poisson_noise ::
  "'g numpy_random \<Rightarrow> pixels \<Rightarrow> random_state \<Rightarrow> 'g store \<Rightarrow> (error + pixels) \<times> 'g store" where
  "make_poisson_noise np img random_state st =
     (case check_random_state np random_state of
        Inl e \<Rightarrow> (Inl e, st)
      | Inr prng \<Rightarrow>
         (case img of
            Quantity v u \<Rightarrow>
              (case poisson_array np v (prng_get prng st) of
                 Inl e \<Rightarrow> (Inl e, st)
               | Inr (noise, g) \<Rightarrow> (Inr (Quantity noise u), prng_put prng g st))
          | Array v \<Rightarrow>
              (case poisson_array np v (prng_get prng st) of
                 Inl e \<Rightarrow> (Inl e, st)
               | Inr (noise, g) \<Rightarrow> (Inr (Array noise), prng_put prng g st))))"

subsection \<open>Source tables\<close>

text \<open>
  An astropy \<^verbatim>\<open>Table\<close> of numeric columns: the columns in order, each with its name.
  \<^verbatim>\<open>len(table)\<close> is the length of the columns; \<^verbatim>\<open>table[name]\<close> raises \<^verbatim>\<open>KeyError\<close> for a
  name that is not a column; \<^verbatim>\<open>table[name] = values\<close> replaces the column of that name or
  appends a new one, and rejects values whose length is not the length of the table (a table
  without columns takes any length).
\<close>

type_synonym table = "(string \<times> real list) list"

definition colnames :: "table \<Rightarrow> string list" where
  "colnames t = map fst t"

definition nrows :: "table \<Rightarrow> nat" where
  "nrows t = (case t of [] \<Rightarrow> 0 | (name, col) # _ \<Rightarrow> length col)"

definition table_getitem :: "table \<Rightarrow> string \<Rightarrow> error + real list" where
  "table_getitem t name = (case map_of t name of None \<Rightarrow> Inl (KeyError name) | Some col \<Rightarrow> Inr col)"

definition table_setitem :: "table \<Rightarrow> string \<Rightarrow> real list \<Rightarrow> error + table" where
  "table_setitem t name col =
     (if t = [] then Inr [(name, col)]
      else if length col = nrows t then
        Inr (if name \<in> set (colnames t) then map (\<lambda>(k, v). if k = name then (k, col) else (k, v)) t
             else t @ [(name, col)])
      else Inl (ValueError ''Inconsistent data column lengths''))"

definition list_getitem :: "real list \<Rightarrow> nat \<Rightarrow> error + real" where
  "list_getitem xs i = (if i < length xs then Inr (xs ! i) else Inl (IndexError ''index out of range''))"

text \<open>\<^verbatim>\<open>row[name]\<close>, for the row \<^verbatim>\<open>i\<close> of the table.\<close>

definition row_getitem :: "table \<Rightarrow> nat \<Rightarrow> string \<Rightarrow> error + real" where
  "row_getitem t i name = bindE (table_getitem t name) (\<lambda>col. list_getitem col i)"

text \<open>The tables astropy builds: distinct column names, columns of one length.\<close>

definition table_ok :: "table \<Rightarrow> bool" where
  "table_ok t = (distinct (colnames t) \<and> list_all (\<lambda>(name, col). length col = nrows t) t)"

subsection \<open>\<^verbatim>\<open>make_gaussian_sources\<close>\<close>

text \<open>Lines 277 to 285: the amplitudes, from \<^verbatim>\<open>flux\<close> when the table has it.\<close>

definition source_amplitude :: "table \<Rightarrow> error + real list" where
  \<open>source_amplitude source_table =
     (if ''flux'' \<in> set (colnames source_table) then
        bindE (table_getitem source_table ''flux'') (\<lambda>flux.
        bindE (table_getitem source_table ''x_stddev'') (\<lambda>x_stddev.
        bindE (table_getitem source_table ''y_stddev'') (\<lambda>y_stddev.
          Inr (map (\<lambda>(f, sx, sy). f / (2 * pi * sx * sy)) (zip flux (zip x_stddev y_stddev))))))
      else if ''amplitude'' \<in> set (colnames source_table) then
        table_getitem source_table ''amplitude''
      else Inl (ValueError
        ''either "amplitude" or "flux" must be columns in the input source_table''))\<close>

text \<open>Lines 288 to 297: the body of the loop, for the row \<^verbatim>\<open>i\<close>.\<close>

definition add_source ::
  "astropy \<Rightarrow> table \<Rightarrow> real list \<Rightarrow> shape \<Rightarrow> real \<Rightarrow> ndarray \<Rightarrow> ndarray \<Rightarrow> ndarray \<Rightarrow> nat \<Rightarrow>
     error + ndarray" where
  "add_source ap source_table amplitude image_shape oversample x y img i =
     bindE (list_getitem amplitude i) (\<lambda>a.
     bindE (row_getitem source_table i ''x_mean'') (\<lambda>x_mean.
     bindE (row_getitem source_table i ''y_mean'') (\<lambda>y_mean.
     bindE (row_getitem source_table i ''x_stddev'') (\<lambda>x_stddev.
     bindE (row_getitem source_table i ''y_stddev'') (\<lambda>y_stddev.
     bindE (row_getitem source_table i ''theta'') (\<lambda>theta.
       let model = Gaussian2D ap a x_mean y_mean x_stddev y_stddev theta in
       if oversample = 1 then np_iadd img (call_model model x y)
       else bindE (discretize_model ap model (0, int (snd image_shape)) (0, int (fst image_shape))
                     Oversample oversample)
                  (np_iadd img)))))))"

fun add_sources ::
  "astropy \<Rightarrow> table \<Rightarrow> real list \<Rightarrow> shape \<Rightarrow> real \<Rightarrow> ndarray \<Rightarrow> ndarray \<Rightarrow> nat list \<Rightarrow> ndarray \<Rightarrow>
     error + ndarray" where
  "add_sources ap source_table amplitude image_shape oversample x y [] img = Inr img"
| "add_sources ap source_table amplitude image_shape oversample x y (i # js) img =
     (case add_source ap source_table amplitude image_shape oversample x y img i of
        Inl e \<Rightarrow> Inl e
      | Inr img' \<Rightarrow> add_sources ap source_table amplitude image_shape oversample x y js img')"

definition wcs_message :: string where
  "wcs_message =
     ''wcs header only works with hdu output, use keyword '' @ [CHR 0x27] @ ''hdu=True'' @ [CHR 0x27]"

text \<open>
  Lines 298 to 321: the unit, the check of \<^verbatim>\<open>wcs\<close>, the header and the \<^verbatim>\<open>ImageHDU\<close>.
  \<^verbatim>\<open>int(n / 2)\<close> is \<^verbatim>\<open>n div 2\<close> for a dimension \<^verbatim>\<open>n\<close>.
\<close>

definition make_header :: "astropy \<Rightarrow> shape \<Rightarrow> bool \<Rightarrow> wcsdict option \<Rightarrow> error + wcsdict option" where
  "make_header ap image_shape wcs wcsheader =
     (if wcs then
        (case wcsheader of
           None \<Rightarrow>
             bindE (WCS ap [(''CTYPE1'', Str ''RA---TAN''), (''CTYPE2'', Str ''DEC--TAN''),
                            (''CRPIX1'', Num (int (snd image_shape div 2))),
                            (''CRPIX2'', Num (int (fst image_shape div 2)))]) (\<lambda>w.
             bindE (to_header ap w) (\<lambda>header. Inr (Some header)))
         | Some d \<Rightarrow> bindE (WCS ap d) (\<lambda>header. Inr (Some header)))
      else Inr None)"

definition finish_image ::
  "astropy \<Rightarrow> shape \<Rightarrow> string option \<Rightarrow> bool \<Rightarrow> bool \<Rightarrow> wcsdict option \<Rightarrow> ndarray \<Rightarrow>
     error + returned" where
  "finish_image ap image_shape unit hdu wcs wcsheader img =
     bindE (with_unit ap unit img) (\<lambda>px.
       if wcs \<and> \<not> hdu then Inl (ValueError wcs_message)
       else if hdu then
         bindE (make_header ap image_shape wcs wcsheader) (\<lambda>header.
         bindE (fits_ImageHDU ap px header) (\<lambda>h. Inr (ImageHDU h)))
       else Inr (Plain px))"

definition make_gaussian_sources ::
  "astropy \<Rightarrow> shape \<Rightarrow> table \<Rightarrow> real \<Rightarrow> string option \<Rightarrow> bool \<Rightarrow> bool \<Rightarrow> wcsdict option \<Rightarrow>
     error + returned" where
  "make_gaussian_sources ap image_shape source_table oversample unit hdu wcs wcsheader =
     (let img = np_zeros image_shape;
          (y, x) = np_indices image_shape
      in bindE (source_amplitude source_table) (\<lambda>amplitude.
         bindE (add_sources ap source_table amplitude image_shape oversample x y
                  [0..<nrows source_table] img)
               (finish_image ap image_shape unit hdu wcs wcsheader)))"

subsection \<open>\<^verbatim>\<open>make_random_gaussians\<close>\<close>

text \<open>
  One statement \<^verbatim>\<open>sources[name] = prng.uniform(range[0], range[1], n_sources)\<close>, on the
  table built so far and the state of the generator. A range is a pair \<^verbatim>\<open>(lower, upper)\<close>.
\<close>

definition set_uniform ::
  "'g numpy_random \<Rightarrow> string \<Rightarrow> real \<times> real \<Rightarrow> nat \<Rightarrow> (error + table) \<times> 'g \<Rightarrow> (error + table) \<times> 'g" where
  "set_uniform np name bounds n_sources s =
     (case s of
        (Inl e, g) \<Rightarrow> (Inl e, g)
      | (Inr sources, g) \<Rightarrow>
          (case uniform np (fst bounds) (snd bounds) n_sources g of
             Inl e \<Rightarrow> (Inl e, g)
           | Inr (col, g') \<Rightarrow> (table_setitem sources name col, g')))"

definition make_random_gaussians ::
  "'g numpy_random \<Rightarrow> nat \<Rightarrow> real \<times> real \<Rightarrow> real \<times> real \<Rightarrow> real \<times> real \<Rightarrow> real \<times> real \<Rightarrow>
     real \<times> real \<Rightarrow> (real \<times> real) option \<Rightarrow> random_state \<Rightarrow> 'g store \<Rightarrow> (error + table) \<times> 'g store" where
  "make_random_gaussians np n_sources flux_range xmean_range ymean_range xstddev_range
       ystddev_range amplitude_range random_state st =
     (case check_random_state np random_state of
        Inl e \<Rightarrow> (Inl e, st)
      | Inr prng \<Rightarrow>
         (let s0 = (Inr [], prng_get prng st);
              s1 = (case amplitude_range of
                      None \<Rightarrow> set_uniform np ''flux'' flux_range n_sources s0
                    | Some amplitude_range \<Rightarrow> set_uniform np ''amplitude'' amplitude_range n_sources s0);
              s2 = set_uniform np ''x_mean'' xmean_range n_sources s1;
              s3 = set_uniform np ''y_mean'' ymean_range n_sources s2;
              s4 = set_uniform np ''x_stddev'' xstddev_range n_sources s3;
              s5 = set_uniform np ''y_stddev'' ystddev_range n_sources s4;
              s6 = set_uniform np ''theta'' (0, 2 * pi) n_sources s5
          in (fst s6, prng_put prng (snd s6) st)))"

subsection \<open>\<^verbatim>\<open>make_4gaussians_image\<close> and \<^verbatim>\<open>make_100gaussians_image\<close>\<close>

text \<open>
  \<^verbatim>\<open>sources + noise\<close> and \<^verbatim>\<open>sources.data += noise\<close>. Both canned functions pass no unit, so
  the operands are plain arrays; arithmetic on a \<^verbatim>\<open>Quantity\<close>, the sum of an \<^verbatim>\<open>ImageHDU\<close>
  and an array, and the \<^verbatim>\<open>data\<close> of a plain array are outside the embedding.
\<close>

definition returned_add :: "returned \<Rightarrow> pixels \<Rightarrow> error + returned" where
  "returned_add sources noise =
     (case (sources, noise) of
        (Plain (Array a), Array b) \<Rightarrow> bindE (np_add a b) (\<lambda>c. Inr (Plain (Array c)))
      | _ \<Rightarrow> Inl (Unmodelled ''sources + noise''))"

definition data_iadd :: "returned \<Rightarrow> pixels \<Rightarrow> error + returned" where
  "data_iadd sources noise =
     (case sources of
        ImageHDU h \<Rightarrow>
          (case (hdu_data h, noise) of
             (Array a, Array b) \<Rightarrow>
               bindE (np_iadd a b) (\<lambda>c. Inr (ImageHDU (h\<lparr>hdu_data := Array c\<rparr>)))
           | _ \<Rightarrow> Inl (Unmodelled ''sources.data += noise''))
      | Plain px \<Rightarrow> Inl (Unmodelled ''sources.data += noise''))"

definition make_4gaussians_image ::
  "'g numpy_random \<Rightarrow> astropy \<Rightarrow> bool \<Rightarrow> bool \<Rightarrow> wcsdict option \<Rightarrow> 'g store \<Rightarrow>
     (error + returned) \<times> 'g store" where
  "make_4gaussians_image np ap hdu wcs wcsheader st =
     (case bindE (table_setitem [] ''amplitude'' [50, 70, 150, 210]) (\<lambda>t.
           bindE (table_setitem t ''x_mean'' [160, 25, 150, 90]) (\<lambda>t.
           bindE (table_setitem t ''y_mean'' [70, 40, 25, 60]) (\<lambda>t.
           bindE (table_setitem t ''x_stddev'' [15.2, 5.1, 3, 8.1]) (\<lambda>t.
           bindE (table_setitem t ''y_stddev'' [2.6, 2.5, 3, 4.7]) (\<lambda>t.
           table_setitem t ''theta'' (map (\<lambda>d. d * pi / 180) [145, 20, 0, 60])))))) of
        Inl e \<Rightarrow> (Inl e, st)
      | Inr table \<Rightarrow>
         (let image_shape = (100, 200) in
          case make_gaussian_sources ap image_shape table 1 None hdu wcs wcsheader of
            Inl e \<Rightarrow> (Inl e, st)
          | Inr sources \<Rightarrow>
             (case make_noise_image np ap image_shape ''gaussian'' (Some 5) (Some 5) None (RS_Int 12345)
                     st of
                (Inl e, st') \<Rightarrow> (Inl e, st')
              | (Inr noise, st') \<Rightarrow>
                  (if hdu then data_iadd sources noise else returned_add sources noise, st'))))"

definition make_100gaussians_image ::
  "'g numpy_random \<Rightarrow> astropy \<Rightarrow> 'g store \<Rightarrow> (error + returned) \<times> 'g store" where
  "make_100gaussians_image np ap st =
     (let n_sources = 100;
          flux_range = (500, 1000);
          xmean_range = (0, 500);
          ymean_range = (0, 300);
          xstddev_range = (1, 5);
          ystddev_range = (1, 5)
      in case make_random_gaussians np n_sources flux_range xmean_range ymean_range xstddev_range
                ystddev_range None (RS_Int 12345) st of
           (Inl e, st1) \<Rightarrow> (Inl e, st1)
         | (Inr table, st1) \<Rightarrow>
            (let image_shape = (300, 500) in
             case make_gaussian_sources ap image_shape table 1 None False False None of
               Inl e \<Rightarrow> (Inl e, st1)
             | Inr image1 \<Rightarrow>
                (case make_noise_image np ap image_shape ''gaussian'' (Some 5) (Some 2) None
                        (RS_Int 12345) st1 of
                   (Inl e, st2) \<Rightarrow> (Inl e, st2)
                 | (Inr noise, st2) \<Rightarrow> (returned_add image1 noise, st2))))"

subsection \<open>The claims' own notions\<close>

text \<open>The elementwise sum of two arrays of one shape.\<close>

definition add_arrays :: "ndarray \<Rightarrow> ndarray \<Rightarrow> ndarray" where
  "add_arrays a b = \<lparr>shape = shape a, rows = map2 (map2 (+)) (rows a) (rows b)\<rparr>"

text \<open>
  The entry of a column in the row \<^verbatim>\<open>i\<close>, and the Gaussian2D model of the row \<^verbatim>\<open>i\<close> of a
  source table: its amplitude is the flux divided by \<^verbatim>\<open>2 * pi * x_stddev * y_stddev\<close> when
  the table has a \<^verbatim>\<open>flux\<close> column, and the entry of \<^verbatim>\<open>amplitude\<close> otherwise.
\<close>

definition cell :: "table \<Rightarrow> string \<Rightarrow> nat \<Rightarrow> real" where
  "cell t name i = (case map_of t name of None \<Rightarrow> 0 | Some col \<Rightarrow> col ! i)"

definition model_amplitude :: "table \<Rightarrow> nat \<Rightarrow> real" where
  "model_amplitude t i =
     (if ''flux'' \<in> set (colnames t)
      then cell t ''flux'' i / (2 * pi * cell t ''x_stddev'' i * cell t ''y_stddev'' i)
      else cell t ''amplitude'' i)"

definition source_model :: "astropy \<Rightarrow> table \<Rightarrow> nat \<Rightarrow> model" where
  "source_model ap t i =
     Gaussian2D ap (model_amplitude t i) (cell t ''x_mean'' i) (cell t ''y_mean'' i)
       (cell t ''x_stddev'' i) (cell t ''y_stddev'' i) (cell t ''theta'' i)"

text \<open>A source table with the required columns.\<close>

definition required_columns :: "table \<Rightarrow> bool" where
  "required_columns t =
     (list_all (\<lambda>name. name \<in> set (colnames t))
        [''x_mean'', ''y_mean'', ''x_stddev'', ''y_stddev'', ''theta'']
      \<and> (''flux'' \<in> set (colnames t) \<or> ''amplitude'' \<in> set (colnames t)))"

text \<open>
  The discretization of a model on the grid of an image, averaged over the grid oversampled
  by \<^verbatim>\<open>factor\<close>, as \<^verbatim>\<open>discretize_model\<close> returns it. \<^verbatim>\<open>discretize_ok\<close> says that the
  library discretizes every source of the table and returns arrays of the shape of the image.
\<close>

definition discretized :: "astropy \<Rightarrow> shape \<Rightarrow> real \<Rightarrow> model \<Rightarrow> ndarray" where
  "discretized ap s factor m =
     (case discretize_model ap m (0, int (snd s)) (0, int (fst s)) Oversample factor of
        Inl e \<Rightarrow> np_zeros s
      | Inr d \<Rightarrow> d)"

definition discretize_ok :: "astropy \<Rightarrow> shape \<Rightarrow> real \<Rightarrow> table \<Rightarrow> bool" where
  "discretize_ok ap s factor t =
     list_all (\<lambda>i.
        case discretize_model ap (source_model ap t i) (0, int (snd s)) (0, int (fst s))
               Oversample factor of
          Inl e \<Rightarrow> False
        | Inr d \<Rightarrow> shape d = s \<and> well_shaped d)
      [0..<nrows t]"

text \<open>The array that the row \<^verbatim>\<open>i\<close> of the table adds to the image.\<close>

definition layer :: "astropy \<Rightarrow> table \<Rightarrow> shape \<Rightarrow> real \<Rightarrow> nat \<Rightarrow> ndarray" where
  "layer ap t s oversample i =
     (if oversample = 1
      then call_model (source_model ap t i) (snd (np_indices s)) (fst (np_indices s))
      else discretized ap s oversample (source_model ap t i))"

text \<open>
  A float divided by zero is \<^verbatim>\<open>inf\<close> or \<^verbatim>\<open>nan\<close>, which no real number is. Where the value of an
  amplitude computed from the flux matters, the theorems are about the tables whose divisors
  \<^verbatim>\<open>x_stddev * y_stddev\<close> are not zero.
\<close>

definition flux_divisors_nonzero :: "table \<Rightarrow> bool" where
  "flux_divisors_nonzero t =
     (if ''flux'' \<in> set (colnames t)
      then list_all (\<lambda>i. cell t ''x_stddev'' i * cell t ''y_stddev'' i \<noteq> 0) [0..<nrows t]
      else True)"



text \<open>The table of \<^verbatim>\<open>make_4gaussians_image\<close>, lines 488 to 494.\<close>

definition gaussians4_table :: table where
  "gaussians4_table =
     [(''amplitude'', [50, 70, 150, 210]),
      (''x_mean'', [160, 25, 150, 90]),
      (''y_mean'', [70, 40, 25, 60]),
      (''x_stddev'', [15.2, 5.1, 3, 8.1]),
      (''y_stddev'', [2.6, 2.5, 3, 4.7]),
      (''theta'', [145 * pi / 180, 20 * pi / 180, 0 * pi / 180, 60 * pi / 180])]"

subsection \<open>Example libraries\<close>

text \<open>
  A generator to instantiate the theorems at concrete inputs: a linear congruential generator
  in place of numpy's Mersenne twister, whose samplers return arrays of the size asked for,
  as numpy's do, without following numpy's distributions.
\<close>

definition lcg_next :: "nat \<Rightarrow> nat" where
  "lcg_next g = (1103515245 * g + 12345) mod 2147483648"

definition lcg_unit :: "nat \<Rightarrow> real" where
  "lcg_unit g = real g / 2147483648"

fun lcg_draws :: "nat \<Rightarrow> nat \<Rightarrow> real list \<times> nat" where
  "lcg_draws 0 g = ([], g)"
| "lcg_draws (Suc n) g =
     (let g' = lcg_next g; (us, g'') = lcg_draws n g' in (lcg_unit g' # us, g''))"

fun lcg_rows :: "nat \<Rightarrow> nat \<Rightarrow> nat \<Rightarrow> real list list \<times> nat" where
  "lcg_rows 0 w g = ([], g)"
| "lcg_rows (Suc h) w g =
     (let (us, g') = lcg_draws w g; (rs, g'') = lcg_rows h w g' in (us # rs, g''))"

definition lcg_array :: "(real \<Rightarrow> real) \<Rightarrow> shape \<Rightarrow> nat \<Rightarrow> ndarray \<times> nat" where
  "lcg_array f s g =
     (let (rs, g') = lcg_rows (fst s) (snd s) g in (\<lparr>shape = s, rows = map (map f) rs\<rparr>, g'))"

definition example_random :: "nat numpy_random" where
  "example_random =
     \<lparr>RandomState = (\<lambda>s. if 0 \<le> s \<and> s < 4294967296 then Inr (nat s)
                          else Inl ''Seed must be between 0 and 2**32 - 1''),
      normal = (\<lambda>mean stddev s g.
        if stddev < 0 then Inl (ValueError ''scale < 0'')
        else Inr (lcg_array (\<lambda>u. mean + stddev * (2 * u - 1)) s g)),
      poisson = (\<lambda>lam s g.
        if lam < 0 then Inl (ValueError ''lam < 0'')
        else Inr (lcg_array (\<lambda>u. of_int \<lfloor>2 * lam * u\<rfloor>) s g)),
      poisson_array = (\<lambda>a g.
        if list_ex (list_ex (\<lambda>lam. lam < 0)) (rows a) then Inl (ValueError ''lam < 0'')
        else Inr (let (u, g') = lcg_array (\<lambda>u. u) (shape a) g
                  in (\<lparr>shape = shape a,
                       rows = map2 (map2 (\<lambda>lam u. of_int \<lfloor>2 * lam * u\<rfloor>)) (rows a) (rows u)\<rparr>, g'))),
      uniform = (\<lambda>low high n g.
        let (us, g') = lcg_draws n g in Inr (map (\<lambda>u. low + (high - low) * u) us, g'))\<rparr>"

text \<open>
  Models and their discretization, to instantiate the theorems: the rotated Gaussian, and a
  discretization that averages the model over \<^verbatim>\<open>k * k\<close> points of each pixel, \<^verbatim>\<open>k\<close> being
  the integer part of the factor. Three unit names parse; every dictionary makes a WCS
  object, and every image an \<^verbatim>\<open>ImageHDU\<close>.
\<close>

definition example_astropy :: astropy where
  "example_astropy =
     \<lparr>Gaussian2D = (\<lambda>amplitude x_mean y_mean x_stddev y_stddev theta x y.
        let a = (cos theta)\<^sup>2 / (2 * x_stddev\<^sup>2) + (sin theta)\<^sup>2 / (2 * y_stddev\<^sup>2);
            b = sin (2 * theta) / (2 * x_stddev\<^sup>2) - sin (2 * theta) / (2 * y_stddev\<^sup>2);
            c = (sin theta)\<^sup>2 / (2 * x_stddev\<^sup>2) + (cos theta)\<^sup>2 / (2 * y_stddev\<^sup>2)
        in amplitude * exp (- (a * (x - x_mean)\<^sup>2 + b * (x - x_mean) * (y - y_mean)
                               + c * (y - y_mean)\<^sup>2))),
      discretize_model = (\<lambda>f x_range y_range mode factor.
        let w = nat (snd x_range - fst x_range);
            h = nat (snd y_range - fst y_range);
            k = nat \<lfloor>factor\<rfloor>
        in if mode = Oversample then
             (if k = 0 then Inl (ValueError ''factor'')
              else Inr \<lparr>shape = (h, w),
                        rows = map (\<lambda>r. map (\<lambda>c.
                          (\<Sum>j\<leftarrow>[0..<k]. \<Sum>i\<leftarrow>[0..<k].
                             f (of_int (fst x_range) + real c - 1 / 2 + (real i + 1 / 2) / real k)
                               (of_int (fst y_range) + real r - 1 / 2 + (real j + 1 / 2) / real k))
                          / (real k)\<^sup>2) [0..<w]) [0..<h]\<rparr>)
           else Inl (Unmodelled ''discretize_model mode'')),
      u_Quantity = (\<lambda>img u.
        if u \<in> set [''adu'', ''electron'', ''Jy''] then Inr (Quantity img u)
        else Inl (ValueError (u @ '' did not parse as unit''))),
      WCS = (\<lambda>d. Inr d),
      to_header = (\<lambda>w. Inr w),
      fits_ImageHDU = (\<lambda>px header. Inr \<lparr>hdu_data = px, hdu_header = header\<rparr>)\<rparr>"

text \<open>Two tables of two sources, which differ in the amplitude column, to instantiate the theorems.\<close>

definition example_table :: table where
  "example_table =
     [(''flux'', [10, 20]), (''amplitude'', [1, 2]), (''x_mean'', [0, 1]), (''y_mean'', [0, 1]),
      (''x_stddev'', [1, 2]), (''y_stddev'', [1, 2]), (''theta'', [0, 0])]"


section \<open>Properties\<close>

subsection \<open>Noise images\<close>

lemma bindE_simps [simp]: "bindE (Inl e) f = Inl e" "bindE (Inr x) f = f x"
  by (simp_all add: bindE_def)

text \<open>
  The message for an unknown noise type is never built: in the format string the braces
  around the two accepted names are not escaped, so they open a replacement field whose
  name is the text between them, and the call has no keyword argument of that name.
\<close>

lemma format_invalid_type:
  \<open>py_format ''Invalid type: {0}. Use one of {"gaussian", "poisson"}.'' [type] [] =
     Inl (KeyError ''"gaussian", "poisson"'')\<close>
  by (simp add: py_format_def get_field_def is_index_def index_of_def positional_def prepend_def)

lemma noise_invalid_type:
  assumes "type \<noteq> ''gaussian''" "type \<noteq> ''poisson''" "check_random_state np rs = Inr p"
  shows \<open>make_noise_image np ap sh type (Some m) sd u rs st =
           (Inl (KeyError ''"gaussian", "poisson"''), st)\<close>
  using assms by (simp add: make_noise_image_def format_invalid_type)

text \<open>
  C2. Determinism under a fixed seed: with \<^verbatim>\<open>random_state\<close> an integer \<^verbatim>\<open>s\<close>, what
  \<^verbatim>\<open>make_noise_image\<close>, \<^verbatim>\<open>make_poisson_noise\<close> and \<^verbatim>\<open>make_random_gaussians\<close> return does not
  depend on the store of generators in which the call is made, so two separate calls with
  the same parameters and the same seed return the same noise image, the same noise image
  and the same source table.
\<close>

theorem seeded_calls_are_deterministic:
  \<open>fst (make_noise_image np ap sh type mean sd u (RS_Int s) st) =
     fst (make_noise_image np ap sh type mean sd u (RS_Int s) st')
   \<and> fst (make_poisson_noise np img (RS_Int s) st) =
     fst (make_poisson_noise np img (RS_Int s) st')
   \<and> fst (make_random_gaussians np n fr xr yr sxr syr ar (RS_Int s) st) =
     fst (make_random_gaussians np n fr xr yr sxr syr ar (RS_Int s) st')\<close>
  by (simp add: make_noise_image_def make_poisson_noise_def make_random_gaussians_def
      check_random_state_def prng_get_def Let_def
      split: sum.splits option.splits pixels.splits prod.splits)

text \<open>
  C3. The claim: for a type that is neither \<^verbatim>\<open>'gaussian'\<close> nor \<^verbatim>\<open>'poisson'\<close>, with a mean,
  \<^verbatim>\<open>make_noise_image\<close> raises a \<^verbatim>\<open>ValueError\<close> whose message names the type and the accepted
  ones. The code does not: at \<^verbatim>\<open>make_noise_image((100, 200), type='uniform', mean=5.)\<close> it
  raises \<^verbatim>\<open>KeyError('"gaussian", "poisson"')\<close>, from the formatting of the message.
\<close>

theorem noise_invalid_type_raises_KeyError:
  \<open>fst (make_noise_image np ap (100, 200) ''uniform'' (Some 5) None None RS_None st) =
     Inl (KeyError ''"gaussian", "poisson"'')\<close>
  by (simp add: make_noise_image_def check_random_state_def format_invalid_type)

text \<open>
  C4. \<^verbatim>\<open>make_noise_image\<close> raises a \<^verbatim>\<open>ValueError\<close> when a required parameter is missing.
  Without a mean it raises at once, the store of generators untouched. For Gaussian noise
  without a standard deviation it raises a \<^verbatim>\<open>ValueError\<close>, again with the store untouched,
  and the error is the one about \<^verbatim>\<open>stddev\<close> whenever \<^verbatim>\<open>check_random_state\<close> returns a
  generator. For Poisson noise with a mean the standard deviation is not required: without
  it the function draws the image and gives it its unit, so that it returns the image when
  no unit is asked for, and otherwise returns or raises what \<^verbatim>\<open>u.Quantity\<close> does, the
  generator having advanced.
\<close>

theorem noise_required_parameters:
  \<open>make_noise_image np ap sh type None sd u rs st =
     (Inl (ValueError ''"mean" must be input''), st)
   \<and> (\<exists>msg. make_noise_image np ap sh ''gaussian'' (Some m) None u rs st =
         (Inl (ValueError msg), st))
   \<and> (check_random_state np rs = Inr p \<longrightarrow>
        make_noise_image np ap sh ''gaussian'' (Some m) None u rs st =
          (Inl (ValueError ''"stddev" must be input for Gaussian noise''), st))
   \<and> (check_random_state np rs = Inr p \<longrightarrow> poisson np m sh (prng_get p st) = Inr (img, g) \<longrightarrow>
        make_noise_image np ap sh ''poisson'' (Some m) None u rs st =
          (with_unit ap u img, prng_put p g st)
        \<and> make_noise_image np ap sh ''poisson'' (Some m) None None rs st =
          (Inr (Array img), prng_put p g st))\<close>
  by (auto simp add: make_noise_image_def check_random_state_def with_unit_def
      split: sum.splits random_state.splits)

theorem noise_required_parameters_witness:
  \<open>check_random_state example_random (RS_Int 12345) = Inr (Fresh 12345)
   \<and> poisson example_random 5 (1, 2) (prng_get (Fresh 12345) (\<lambda>r. 0)) =
       Inr (lcg_array (\<lambda>u. of_int \<lfloor>2 * 5 * u\<rfloor>) (1, 2) 12345)
   \<and> make_noise_image example_random example_astropy (1, 2) ''gaussian'' (Some 5) None
       (Some ''notaunit'') (RS_Int 12345) (\<lambda>r. 0) =
       (Inl (ValueError ''"stddev" must be input for Gaussian noise''), \<lambda>r. 0)
   \<and> fst (make_noise_image example_random example_astropy (1, 2) ''poisson'' (Some 5) None
            (Some ''notaunit'') (RS_Int 12345) (\<lambda>r. 0)) =
       Inl (ValueError ''notaunit did not parse as unit'')
   \<and> fst (make_noise_image example_random example_astropy (1, 2) ''poisson'' (Some 5) None None
            (RS_Int 12345) (\<lambda>r. 0)) =
       Inr (Array (fst (lcg_array (\<lambda>u. of_int \<lfloor>2 * 5 * u\<rfloor>) (1, 2) 12345)))\<close>
  using noise_required_parameters [of example_random example_astropy "(1, 2)" "''poisson''" None
      "Some ''notaunit''" "RS_Int 12345" "\<lambda>r. 0" 5 "Fresh 12345"
      "fst (lcg_array (\<lambda>u. of_int \<lfloor>2 * 5 * u\<rfloor>) (1, 2) 12345)"
      "snd (lcg_array (\<lambda>u. of_int \<lfloor>2 * 5 * u\<rfloor>) (1, 2) 12345)"]
  by (simp add: check_random_state_def example_random_def example_astropy_def prng_get_def
      with_unit_def)

text \<open>
  C9. For Poisson noise with a mean, the result of \<^verbatim>\<open>make_noise_image\<close> does not depend on
  \<^verbatim>\<open>stddev\<close>, given or not: the image is drawn from the Poisson distribution with \<^verbatim>\<open>lam\<close>
  the mean, and then given its unit.
\<close>

theorem poisson_noise_ignores_stddev:
  \<open>make_noise_image np ap sh ''poisson'' (Some m) sd u rs st =
     make_noise_image np ap sh ''poisson'' (Some m) sd' u rs st
   \<and> make_noise_image np ap sh ''poisson'' (Some m) sd u rs st =
     (case check_random_state np rs of
        Inl e \<Rightarrow> (Inl e, st)
      | Inr p \<Rightarrow>
         (case poisson np m sh (prng_get p st) of
            Inl e \<Rightarrow> (Inl e, st)
          | Inr (img, g) \<Rightarrow> (with_unit ap u img, prng_put p g st)))\<close>
  by (simp add: make_noise_image_def split: sum.splits)

subsection \<open>Arrays\<close>

lemma well_shapedD:
  assumes "well_shaped a"
  shows "length (rows a) = fst (shape a)"
    and "r < fst (shape a) \<Longrightarrow> length (rows a ! r) = snd (shape a)"
  using assms by (simp_all add: well_shaped_def list_all_length)

lemma stretch_rows_id:
  assumes "well_shaped a"
  shows "stretch_rows (shape a) a = rows a"
proof -
  have "map (stretch (snd (shape a))) (rows a) = rows a"
    using assms by (intro map_idI) (simp add: well_shaped_def list_all_iff stretch_def)
  then show ?thesis
    using assms by (simp add: stretch_rows_def stretch_def well_shaped_def)
qed

lemma np_add_same_shape:
  assumes "well_shaped a" "well_shaped b" "shape b = shape a"
  shows "np_add a b = Inr (add_arrays a b)"
proof -
  obtain h w where s: "shape a = (h, w)" by (cases "shape a")
  have "stretch_rows (h, w) a = rows a" "stretch_rows (h, w) b = rows b"
    using stretch_rows_id [OF assms(1)] stretch_rows_id [OF assms(2)] assms(3) s by simp_all
  then show ?thesis
    using s assms(3) by (simp add: np_add_def broadcast_dim_def add_arrays_def)
qed

lemma np_iadd_same_shape:
  assumes "well_shaped a" "well_shaped b" "shape b = shape a"
  shows "np_iadd a b = Inr (add_arrays a b)"
  using np_add_same_shape [OF assms] by (simp add: np_iadd_def add_arrays_def)

lemma shape_add_arrays [simp]: "shape (add_arrays a b) = shape a"
  by (simp add: add_arrays_def)

lemma well_shaped_add_arrays:
  assumes "well_shaped a" "well_shaped b" "shape b = shape a"
  shows "well_shaped (add_arrays a b)"
  using assms by (simp add: well_shaped_def add_arrays_def list_all_length)

lemma pixel_add_arrays:
  assumes "well_shaped a" "well_shaped b" "shape b = shape a"
    and "r < fst (shape a)" "c < snd (shape a)"
  shows "pixel (add_arrays a b) r c = pixel a r c + pixel b r c"
  using assms well_shapedD [OF assms(1)] well_shapedD [OF assms(2)]
  by (simp add: pixel_def add_arrays_def)

lemma np_zeros_props:
  "shape (np_zeros s) = s" "well_shaped (np_zeros s)"
  "r < fst s \<Longrightarrow> c < snd s \<Longrightarrow> pixel (np_zeros s) r c = 0"
  by (simp_all add: np_zeros_def well_shaped_def pixel_def list_all_iff)

lemma call_model_indices:
  assumes "np_indices s = (y, x)"
  shows "shape (call_model f x y) = s" "well_shaped (call_model f x y)"
    "r < fst s \<Longrightarrow> c < snd s \<Longrightarrow> pixel (call_model f x y) r c = f (real c) (real r)"
  using assms
  by (auto simp add: np_indices_def call_model_def well_shaped_def pixel_def list_all_length)

subsection \<open>Tables\<close>

lemma column_lookup:
  assumes "table_ok t" "name \<in> set (colnames t)"
  obtains col where "map_of t name = Some col" "length col = nrows t"
proof -
  from assms(2) have "map_of t name \<noteq> None"
    by (simp add: colnames_def map_of_eq_None_iff)
  then obtain col where c: "map_of t name = Some col" by blast
  then have "(name, col) \<in> set t" by (rule map_of_SomeD)
  with assms(1) have "length col = nrows t"
    by (auto simp add: table_ok_def list_all_iff)
  with c show ?thesis by (rule that)
qed

lemma row_getitem_cell:
  assumes "table_ok t" "name \<in> set (colnames t)" "i < nrows t"
  shows "row_getitem t i name = Inr (cell t name i)"
proof -
  obtain col where "map_of t name = Some col" "length col = nrows t"
    using assms(1,2) by (rule column_lookup)
  with assms(3) show ?thesis
    by (simp add: row_getitem_def table_getitem_def list_getitem_def cell_def)
qed

lemma source_amplitude_ok:
  assumes "table_ok t" "required_columns t"
  shows "\<exists>amp. source_amplitude t = Inr amp \<and> length amp = nrows t
           \<and> (\<forall>i<nrows t. amp ! i = model_amplitude t i)"
proof (cases "''flux'' \<in> set (colnames t)")
  case True
  from assms have sx: "''x_stddev'' \<in> set (colnames t)" and sy: "''y_stddev'' \<in> set (colnames t)"
    by (simp_all add: required_columns_def)
  obtain f where f: "map_of t ''flux'' = Some f" "length f = nrows t"
    using assms(1) True by (rule column_lookup)
  obtain xs where xs: "map_of t ''x_stddev'' = Some xs" "length xs = nrows t"
    using assms(1) sx by (rule column_lookup)
  obtain ys where ys: "map_of t ''y_stddev'' = Some ys" "length ys = nrows t"
    using assms(1) sy by (rule column_lookup)
  let ?amp = "map (\<lambda>(f, sx, sy). f / (2 * pi * sx * sy)) (zip f (zip xs ys))"
  have "source_amplitude t = Inr ?amp"
    using True f xs ys by (simp add: source_amplitude_def table_getitem_def)
  moreover have "length ?amp = nrows t"
    using f xs ys by simp
  moreover have "?amp ! i = model_amplitude t i" if "i < nrows t" for i
    using that True f xs ys by (simp add: model_amplitude_def cell_def)
  ultimately show ?thesis by blast
next
  case False
  with assms(2) have a: "''amplitude'' \<in> set (colnames t)"
    by (simp add: required_columns_def)
  obtain amp where amp: "map_of t ''amplitude'' = Some amp" "length amp = nrows t"
    using assms(1) a by (rule column_lookup)
  have "source_amplitude t = Inr amp"
    using False a amp by (simp add: source_amplitude_def table_getitem_def)
  moreover have "amp ! i = model_amplitude t i" for i
    using False amp by (simp add: model_amplitude_def cell_def)
  ultimately show ?thesis using amp(2) by blast
qed

subsection \<open>The loop of \<^verbatim>\<open>make_gaussian_sources\<close>\<close>

text \<open>
  Every source adds its array to the image: the model sampled at the pixels, or its
  discretization. So the image after the loop is the sum of these arrays, and what the
  function returns is what the last lines make of that image.
\<close>

lemma layer_shaped:
  assumes "oversample \<noteq> 1 \<longrightarrow> discretize_ok ap s oversample t" "i < nrows t"
  shows "shape (layer ap t s oversample i) = s \<and> well_shaped (layer ap t s oversample i)"
proof (cases "oversample = 1")
  case True
  then show ?thesis
    using call_model_indices(1,2) [of s "fst (np_indices s)" "snd (np_indices s)"]
    by (simp add: layer_def)
next
  case False
  with assms have "list_all (\<lambda>i.
        case discretize_model ap (source_model ap t i) (0, int (snd s)) (0, int (fst s))
               Oversample oversample of
          Inl e \<Rightarrow> False
        | Inr d \<Rightarrow> shape d = s \<and> well_shaped d) [0..<nrows t]"
    by (simp add: discretize_ok_def)
  with assms(2) show ?thesis
    using False by (auto simp add: list_all_iff layer_def discretized_def split: sum.splits)
qed

lemma add_source_layer:
  assumes "table_ok t" "required_columns t"
    and "source_amplitude t = Inr amp" "length amp = nrows t"
    and "\<And>i. i < nrows t \<Longrightarrow> amp ! i = model_amplitude t i"
    and "oversample \<noteq> 1 \<longrightarrow> discretize_ok ap s oversample t" "i < nrows t"
  shows "add_source ap t amp s oversample (snd (np_indices s)) (fst (np_indices s)) img i =
           np_iadd img (layer ap t s oversample i)"
proof -
  have cols: "''x_mean'' \<in> set (colnames t)" "''y_mean'' \<in> set (colnames t)"
    "''x_stddev'' \<in> set (colnames t)" "''y_stddev'' \<in> set (colnames t)"
    "''theta'' \<in> set (colnames t)"
    using assms(2) by (simp_all add: required_columns_def)
  have ok: "discretize_model ap (source_model ap t i) (0, int (snd s)) (0, int (fst s))
               Oversample oversample = Inr (discretized ap s oversample (source_model ap t i))"
    if "oversample \<noteq> 1"
  proof -
    from that assms(6) have "list_all (\<lambda>i.
        case discretize_model ap (source_model ap t i) (0, int (snd s)) (0, int (fst s))
               Oversample oversample of
          Inl e \<Rightarrow> False
        | Inr d \<Rightarrow> shape d = s \<and> well_shaped d) [0..<nrows t]"
      by (simp add: discretize_ok_def)
    with assms(7) show ?thesis
      by (auto simp add: list_all_iff discretized_def split: sum.splits)
  qed
  show ?thesis
    using assms(4,7) assms(5) [OF assms(7)] ok
    by (simp add: add_source_def list_getitem_def row_getitem_cell [OF assms(1) _ assms(7)] cols
        layer_def source_model_def Let_def)
qed

lemma add_sources_sum:
  assumes "\<And>i img. i \<in> set js \<Longrightarrow> add_source ap t amp s oversample x y img i = np_iadd img (d i)"
    and "\<And>i. i \<in> set js \<Longrightarrow> shape (d i) = s \<and> well_shaped (d i)"
    and "well_shaped img" "shape img = s"
  shows "\<exists>img'. add_sources ap t amp s oversample x y js img = Inr img' \<and> shape img' = s
           \<and> well_shaped img'
           \<and> (\<forall>r<fst s. \<forall>c<snd s. pixel img' r c = pixel img r c + (\<Sum>i\<leftarrow>js. pixel (d i) r c))"
  using assms
proof (induction js arbitrary: img)
  case Nil
  then show ?case by simp
next
  case (Cons i js)
  have di: "shape (d i) = s" "well_shaped (d i)" using Cons.prems(2) [of i] by simp_all
  have step: "add_source ap t amp s oversample x y img i = Inr (add_arrays img (d i))"
    using Cons.prems(1) [of i img] np_iadd_same_shape [OF Cons.prems(3) di(2)] di(1) Cons.prems(4)
    by simp
  have ws: "well_shaped (add_arrays img (d i))"
    using well_shaped_add_arrays [OF Cons.prems(3) di(2)] di(1) Cons.prems(4) by simp
  have sh: "shape (add_arrays img (d i)) = s" using Cons.prems(4) by simp
  obtain img' where r: "add_sources ap t amp s oversample x y js (add_arrays img (d i)) = Inr img'"
      "shape img' = s" "well_shaped img'"
      "\<forall>r<fst s. \<forall>c<snd s. pixel img' r c = pixel (add_arrays img (d i)) r c + (\<Sum>i\<leftarrow>js. pixel (d i) r c)"
    using Cons.IH [OF _ _ ws sh] Cons.prems(1,2) by auto
  have "pixel img' r c = pixel img r c + (\<Sum>i\<leftarrow>i # js. pixel (d i) r c)"
    if "r < fst s" "c < snd s" for r c
    using that r(4) pixel_add_arrays [OF Cons.prems(3) di(2), of r c] di(1) Cons.prems(4)
    by simp
  with r step show ?case by simp
qed

lemma gaussian_sources_array:
  assumes "table_ok t" "required_columns t"
    and "oversample \<noteq> 1 \<longrightarrow> discretize_ok ap s oversample t"
  shows "\<exists>img. make_gaussian_sources ap s t oversample unit hdu wcs wcsheader =
             finish_image ap s unit hdu wcs wcsheader img
           \<and> shape img = s \<and> well_shaped img
           \<and> (\<forall>r<fst s. \<forall>c<snd s.
                 pixel img r c = (\<Sum>i<nrows t. pixel (layer ap t s oversample i) r c))"
proof -
  obtain amp where amp: "source_amplitude t = Inr amp" "length amp = nrows t"
    "\<And>i. i < nrows t \<Longrightarrow> amp ! i = model_amplitude t i"
    using source_amplitude_ok [OF assms(1,2)] by blast
  have 1: "add_source ap t amp s oversample (snd (np_indices s)) (fst (np_indices s)) img i =
           np_iadd img (layer ap t s oversample i)" if "i \<in> set [0..<nrows t]" for i img
    using that add_source_layer [OF assms(1,2) amp assms(3)] by simp
  have 2: "shape (layer ap t s oversample i) = s \<and> well_shaped (layer ap t s oversample i)"
    if "i \<in> set [0..<nrows t]" for i
    using that layer_shaped [OF assms(3)] by simp
  obtain img where img:
    "add_sources ap t amp s oversample (snd (np_indices s)) (fst (np_indices s)) [0..<nrows t]
       (np_zeros s) = Inr img" "shape img = s" "well_shaped img"
    "\<forall>r<fst s. \<forall>c<snd s. pixel img r c =
       pixel (np_zeros s) r c + (\<Sum>i\<leftarrow>[0..<nrows t]. pixel (layer ap t s oversample i) r c)"
    using add_sources_sum [of "[0..<nrows t]" ap t amp s oversample "snd (np_indices s)"
        "fst (np_indices s)" "layer ap t s oversample" "np_zeros s", OF 1 2 np_zeros_props(2,1)]
    by auto
  have "make_gaussian_sources ap s t oversample unit hdu wcs wcsheader =
       finish_image ap s unit hdu wcs wcsheader img"
    using amp(1) img(1) by (simp add: make_gaussian_sources_def Let_def case_prod_beta)
  moreover have "pixel img r c = (\<Sum>i<nrows t. pixel (layer ap t s oversample i) r c)"
    if "r < fst s" "c < snd s" for r c
    using that img(4) np_zeros_props(3) [of r s c]
    by (simp add: interv_sum_list_conv_sum_set_nat atLeast0LessThan)
  ultimately show ?thesis using img(2,3) by blast
qed

lemma gaussian_sources_finishes:
  assumes "table_ok t" "required_columns t"
    and "oversample \<noteq> 1 \<longrightarrow> discretize_ok ap s oversample t"
  shows "\<exists>img. make_gaussian_sources ap s t oversample unit hdu wcs wcsheader =
           finish_image ap s unit hdu wcs wcsheader img"
  using gaussian_sources_array [OF assms, of unit hdu wcs wcsheader] by blast

lemma finish_image_plain:
  "finish_image ap s None False False None img = Inr (Plain (Array img))"
  by (simp add: finish_image_def with_unit_def)

lemma gaussian_sources_plain:
  assumes "table_ok t" "required_columns t"
  shows "\<exists>img. make_gaussian_sources ap s t 1 None False False wcsheader = Inr (Plain (Array img))
           \<and> shape img = s \<and> well_shaped img"
proof -
  obtain img where "make_gaussian_sources ap s t 1 None False False wcsheader =
       finish_image ap s None False False wcsheader img" "shape img = s" "well_shaped img"
    using gaussian_sources_array [OF assms, of 1 ap s None False False wcsheader] by auto
  then show ?thesis
    by (auto simp add: finish_image_def with_unit_def)
qed

lemma gaussian_sources_finish:
  "make_gaussian_sources ap s t oversample unit hdu wcs wcsheader = Inr out \<Longrightarrow>
     \<exists>img. finish_image ap s unit hdu wcs wcsheader img = Inr out"
  by (auto simp add: make_gaussian_sources_def Let_def case_prod_beta bindE_def split: sum.splits)

lemma finish_image_wcs_without_hdu:
  "finish_image ap s unit False True wcsheader img =
     (case with_unit ap unit img of Inl e \<Rightarrow> Inl e | Inr px \<Rightarrow> Inl (ValueError wcs_message))"
  by (simp add: finish_image_def bindE_def split: sum.splits)

lemma gaussian_sources_wcs_without_hdu:
  "\<exists>e. make_gaussian_sources ap s t oversample unit False True wcsheader = Inl e"
  by (auto simp add: make_gaussian_sources_def Let_def case_prod_beta bindE_def
      finish_image_wcs_without_hdu split: sum.splits)

subsection \<open>The example libraries\<close>

lemma example_discretize_ok: "0 < nat \<lfloor>factor\<rfloor> \<Longrightarrow> discretize_ok example_astropy s factor t"
  by (simp add: discretize_ok_def example_astropy_def list_all_iff well_shaped_def Let_def)

lemma example_table_ok:
  "table_ok example_table" "required_columns example_table" "nrows example_table = 2"
  "flux_divisors_nonzero example_table"
  by (simp_all add: example_table_def table_ok_def required_columns_def colnames_def nrows_def
      flux_divisors_nonzero_def cell_def upt_rec [of 0 2] upt_rec [of 1 2])

lemma example_astropy_simps:
  "WCS example_astropy d = Inr d"
  "to_header example_astropy w = Inr w"
  "fits_ImageHDU example_astropy px header = Inr \<lparr>hdu_data = px, hdu_header = header\<rparr>"
  "u_Quantity example_astropy img u =
     (if u \<in> set [''adu'', ''electron'', ''Jy''] then Inr (Quantity img u)
      else Inl (ValueError (u @ '' did not parse as unit'')))"
  by (simp_all add: example_astropy_def)

lemma example_finish_hdu:
  "finish_image example_astropy (2, 3) None True True None img =
     Inr (ImageHDU \<lparr>hdu_data = Array img, hdu_header = Some
        [(''CTYPE1'', Str ''RA---TAN''), (''CTYPE2'', Str ''DEC--TAN''),
         (''CRPIX1'', Num 1), (''CRPIX2'', Num 1)]\<rparr>)"
  by (simp add: finish_image_def make_header_def with_unit_def example_astropy_simps)

lemma lcg_draws_length: "length (fst (lcg_draws n g)) = n"
  by (induction n arbitrary: g) (simp_all add: Let_def case_prod_beta)

lemma example_uniform:
  "uniform example_random low high n g =
     Inr (map (\<lambda>u. low + (high - low) * u) (fst (lcg_draws n g)), snd (lcg_draws n g))"
  by (simp add: example_random_def case_prod_beta)

lemma example_check_random_state:
  "check_random_state example_random (RS_Int 12345) = Inr (Fresh 12345)"
  by (simp add: check_random_state_def example_random_def)

lemma lcg_rows_shaped:
  "length (fst (lcg_rows h w g)) = h \<and> list_all (\<lambda>r. length r = w) (fst (lcg_rows h w g))"
  by (induction h arbitrary: g) (simp_all add: Let_def case_prod_beta lcg_draws_length)

lemma lcg_array_shaped:
  "shape (fst (lcg_array f s g)) = s" "well_shaped (fst (lcg_array f s g))"
  using lcg_rows_shaped [of "fst s" "snd s" g]
  by (simp_all add: lcg_array_def case_prod_beta well_shaped_def list_all_iff)

lemma example_normal:
  "0 \<le> stddev \<Longrightarrow>
     normal example_random mean stddev s g = Inr (lcg_array (\<lambda>u. mean + stddev * (2 * u - 1)) s g)"
  by (simp add: example_random_def)

lemma example_gaussian_noise:
  assumes "0 \<le> sd"
  shows "make_noise_image example_random ap sh ''gaussian'' (Some m) (Some sd) None (RS_Int 12345) st =
           (Inr (Array (fst (lcg_array (\<lambda>u. m + sd * (2 * u - 1)) sh 12345))), st)"
  by (simp add: make_noise_image_def example_check_random_state example_normal [OF assms]
      prng_get_def prng_put_def with_unit_def case_prod_beta)

subsection \<open>Images of Gaussian sources\<close>

text \<open>
  C1. For a source table with the required columns, \<^verbatim>\<open>make_gaussian_sources\<close> with its default
  \<^verbatim>\<open>unit\<close>, \<^verbatim>\<open>hdu\<close> and \<^verbatim>\<open>wcs\<close> returns an array of the shape \<^verbatim>\<open>image_shape\<close>. With \<^verbatim>\<open>oversample\<close>
  equal to 1 the pixel in the row \<^verbatim>\<open>r\<close> and the column \<^verbatim>\<open>c\<close> is the sum over the rows of the table
  of the Gaussian2D model of the row evaluated at \<^verbatim>\<open>x = c\<close>, \<^verbatim>\<open>y = r\<close>, the centre of the pixel.
  Otherwise it is the sum of the pixels of the arrays that \<^verbatim>\<open>discretize_model\<close> returns for
  the models, in the mode \<^verbatim>\<open>oversample\<close> with the factor \<^verbatim>\<open>oversample\<close>, over the ranges of the
  image; that these arrays have the shape of the image is what the library promises, and is
  assumed. The table is one that astropy builds, and where the amplitude comes from the flux
  the divisors are not zero.
\<close>

theorem gaussian_sources_image:
  assumes "table_ok t" "required_columns t" "flux_divisors_nonzero t"
    and "oversample \<noteq> 1 \<longrightarrow> discretize_ok ap s oversample t"
  shows "\<exists>img. make_gaussian_sources ap s t oversample None False False None = Inr (Plain (Array img))
           \<and> shape img = s \<and> well_shaped img
           \<and> (\<forall>r<fst s. \<forall>c<snd s. pixel img r c =
                 (if oversample = 1
                  then (\<Sum>i<nrows t. source_model ap t i (real c) (real r))
                  else (\<Sum>i<nrows t. pixel (discretized ap s oversample (source_model ap t i)) r c)))"
proof -
  obtain img where img:
    "make_gaussian_sources ap s t oversample None False False None =
       finish_image ap s None False False None img"
    "shape img = s" "well_shaped img"
    "\<And>r c. r < fst s \<Longrightarrow> c < snd s \<Longrightarrow>
       pixel img r c = (\<Sum>i<nrows t. pixel (layer ap t s oversample i) r c)"
    using gaussian_sources_array [OF assms(1,2,4), of None False False None] by blast
  have "pixel (layer ap t s oversample i) r c =
          (if oversample = 1 then source_model ap t i (real c) (real r)
           else pixel (discretized ap s oversample (source_model ap t i)) r c)"
    if "r < fst s" "c < snd s" for r c i
    using that call_model_indices(3) [of s "fst (np_indices s)" "snd (np_indices s)" r c]
    by (simp add: layer_def)
  with img show ?thesis
    by (auto simp add: finish_image_plain)
qed

theorem gaussian_sources_image_witness:
  "table_ok example_table \<and> required_columns example_table \<and> flux_divisors_nonzero example_table
   \<and> discretize_ok example_astropy (2, 3) 2 example_table
   \<and> (\<exists>img. make_gaussian_sources example_astropy (2, 3) example_table 2 None False False None =
              Inr (Plain (Array img))
        \<and> shape img = (2, 3) \<and> well_shaped img
        \<and> (\<forall>r<2. \<forall>c<3. pixel img r c =
              (\<Sum>i<2. pixel (discretized example_astropy (2, 3) 2
                                 (source_model example_astropy example_table i)) r c)))"
  using example_table_ok example_discretize_ok [of 2 "(2, 3)" example_table]
    gaussian_sources_image [of example_table 2 example_astropy "(2, 3)"]
  by simp

text \<open>
  C5. For a source table with neither a \<^verbatim>\<open>flux\<close> nor an \<^verbatim>\<open>amplitude\<close> column,
  \<^verbatim>\<open>make_gaussian_sources\<close> raises the \<^verbatim>\<open>ValueError\<close> of line 284 and returns no image, whatever
  the other arguments are.
\<close>

theorem gaussian_sources_needs_amplitude_or_flux:
  assumes "''flux'' \<notin> set (colnames t)" "''amplitude'' \<notin> set (colnames t)"
  shows \<open>make_gaussian_sources ap s t oversample unit hdu wcs wcsheader =
           Inl (ValueError ''either "amplitude" or "flux" must be columns in the input source_table'')\<close>
  using assms by (simp add: make_gaussian_sources_def source_amplitude_def Let_def case_prod_beta)

theorem gaussian_sources_needs_amplitude_or_flux_witness:
  \<open>''flux'' \<notin> set (colnames [(''x_mean'', [1]), (''y_mean'', [2])])
   \<and> ''amplitude'' \<notin> set (colnames [(''x_mean'', [1]), (''y_mean'', [2])])
   \<and> make_gaussian_sources example_astropy (2, 3) [(''x_mean'', [1]), (''y_mean'', [2])] 1 None
       False False None =
       Inl (ValueError ''either "amplitude" or "flux" must be columns in the input source_table'')\<close>
  using gaussian_sources_needs_amplitude_or_flux
    [of "[(''x_mean'', [1]), (''y_mean'', [2])]" example_astropy "(2, 3)" 1 None False False None]
  by (simp add: colnames_def)

text \<open>
  C10. With \<^verbatim>\<open>wcs=True\<close> and \<^verbatim>\<open>hdu=False\<close>, \<^verbatim>\<open>make_gaussian_sources\<close> returns no image: every
  such call raises. For a valid source table and no unit the error is the \<^verbatim>\<open>ValueError\<close> of
  line 302; with a unit, \<^verbatim>\<open>u.Quantity\<close> is called first, on the summed image, and the call
  raises what \<^verbatim>\<open>u.Quantity\<close> raises, or else that \<^verbatim>\<open>ValueError\<close>. A header is attached only
  with \<^verbatim>\<open>hdu=True\<close>: a returned \<^verbatim>\<open>ImageHDU\<close> means that \<^verbatim>\<open>hdu\<close> was set, and it was built with
  a header exactly when \<^verbatim>\<open>wcs\<close> was set; a returned array or \<^verbatim>\<open>Quantity\<close> means that neither
  \<^verbatim>\<open>hdu\<close> nor \<^verbatim>\<open>wcs\<close> was set.
\<close>

theorem wcs_needs_hdu:
  "(\<exists>e. make_gaussian_sources ap s t oversample unit False True wcsheader = Inl e)
   \<and> (table_ok t \<longrightarrow> required_columns t \<longrightarrow> (oversample \<noteq> 1 \<longrightarrow> discretize_ok ap s oversample t) \<longrightarrow>
        make_gaussian_sources ap s t oversample None False True wcsheader =
          Inl (ValueError wcs_message)
        \<and> (\<exists>img. make_gaussian_sources ap s t oversample unit False True wcsheader =
              (case with_unit ap unit img of
                 Inl e \<Rightarrow> Inl e
               | Inr px \<Rightarrow> Inl (ValueError wcs_message))))
   \<and> (make_gaussian_sources ap s t oversample unit hdu wcs wcsheader = Inr (ImageHDU h) \<longrightarrow>
        hdu \<and> (\<exists>px header. fits_ImageHDU ap px header = Inr h \<and> (header \<noteq> None) = wcs))
   \<and> (make_gaussian_sources ap s t oversample unit hdu wcs wcsheader = Inr (Plain px) \<longrightarrow>
        \<not> hdu \<and> \<not> wcs)"
proof (intro conjI impI)
  show "\<exists>e. make_gaussian_sources ap s t oversample unit False True wcsheader = Inl e"
    by (rule gaussian_sources_wcs_without_hdu)
next
  assume a: "table_ok t" "required_columns t" "oversample \<noteq> 1 \<longrightarrow> discretize_ok ap s oversample t"
  obtain img where
    "make_gaussian_sources ap s t oversample None False True wcsheader =
       finish_image ap s None False True wcsheader img"
    using gaussian_sources_array [OF a, of None False True wcsheader] by blast
  then show "make_gaussian_sources ap s t oversample None False True wcsheader =
          Inl (ValueError wcs_message)"
    by (simp add: finish_image_wcs_without_hdu with_unit_def)
  obtain img' where
    "make_gaussian_sources ap s t oversample unit False True wcsheader =
       finish_image ap s unit False True wcsheader img'"
    using gaussian_sources_array [OF a, of unit False True wcsheader] by blast
  then show "\<exists>img. make_gaussian_sources ap s t oversample unit False True wcsheader =
              (case with_unit ap unit img of
                 Inl e \<Rightarrow> Inl e
               | Inr px \<Rightarrow> Inl (ValueError wcs_message))"
    by (auto simp add: finish_image_wcs_without_hdu)
next
  assume "make_gaussian_sources ap s t oversample unit hdu wcs wcsheader = Inr (ImageHDU h)"
  then obtain img where f: "finish_image ap s unit hdu wcs wcsheader img = Inr (ImageHDU h)"
    using gaussian_sources_finish by blast
  then show "hdu"
    by (auto simp add: finish_image_def bindE_def split: if_splits sum.splits)
  from f show "\<exists>px header. fits_ImageHDU ap px header = Inr h \<and> (header \<noteq> None) = wcs"
    by (auto simp add: finish_image_def make_header_def bindE_def
        split: if_splits sum.splits option.splits)
next
  assume "make_gaussian_sources ap s t oversample unit hdu wcs wcsheader = Inr (Plain px)"
  then obtain img where "finish_image ap s unit hdu wcs wcsheader img = Inr (Plain px)"
    using gaussian_sources_finish by blast
  then show "\<not> hdu" "\<not> wcs"
    by (auto simp add: finish_image_def bindE_def split: if_splits sum.splits)
qed

theorem wcs_needs_hdu_witness:
  "table_ok example_table \<and> required_columns example_table
   \<and> make_gaussian_sources example_astropy (2, 3) example_table 1 None False True None =
       Inl (ValueError wcs_message)
   \<and> (\<exists>h. make_gaussian_sources example_astropy (2, 3) example_table 1 None True True None =
               Inr (ImageHDU h)
          \<and> (\<exists>px header. fits_ImageHDU example_astropy px header = Inr h \<and> header \<noteq> None))
   \<and> (\<exists>img. make_gaussian_sources example_astropy (2, 3) example_table 1 None False False None =
               Inr (Plain (Array img)))"
proof -
  note h = example_table_ok(1,2)
  obtain img where
    "make_gaussian_sources example_astropy (2, 3) example_table 1 None True True None =
       finish_image example_astropy (2, 3) None True True None img"
    using gaussian_sources_finishes [OF h, of 1 example_astropy "(2, 3)" None True True None] by blast
  then obtain h' where 1:
    "make_gaussian_sources example_astropy (2, 3) example_table 1 None True True None =
       Inr (ImageHDU h')"
    by (simp only: example_finish_hdu)
  note w = wcs_needs_hdu [of example_astropy "(2, 3)" example_table 1 None None True True h' "Array img"]
  from w h have a:
    "make_gaussian_sources example_astropy (2, 3) example_table 1 None False True None =
       Inl (ValueError wcs_message)"
    by blast
  from w 1 have "\<exists>px header. fits_ImageHDU example_astropy px header = Inr h' \<and> (header \<noteq> None) = True"
    by blast
  then have b: "\<exists>px header. fits_ImageHDU example_astropy px header = Inr h' \<and> header \<noteq> None"
    by simp
  have c: "\<exists>img. make_gaussian_sources example_astropy (2, 3) example_table 1 None False False
      None = Inr (Plain (Array img))"
    using gaussian_sources_plain [OF h, of example_astropy "(2, 3)" None] by blast
  from h a 1 b c show ?thesis by blast
qed

subsection \<open>Flux and amplitude\<close>













subsection \<open>Random source tables\<close>

lemma random_gaussians_chain:
  assumes "check_random_state np random_state = Inr p"
    and "uniform np (fst (case amplitude_range of None \<Rightarrow> flux_range | Some r \<Rightarrow> r))
           (snd (case amplitude_range of None \<Rightarrow> flux_range | Some r \<Rightarrow> r)) n (prng_get p st) =
         Inr (c1, g1)"
    and "uniform np (fst xmean_range) (snd xmean_range) n g1 = Inr (c2, g2)"
    and "uniform np (fst ymean_range) (snd ymean_range) n g2 = Inr (c3, g3)"
    and "uniform np (fst xstddev_range) (snd xstddev_range) n g3 = Inr (c4, g4)"
    and "uniform np (fst ystddev_range) (snd ystddev_range) n g4 = Inr (c5, g5)"
    and "uniform np 0 (2 * pi) n g5 = Inr (c6, g6)"
    and "list_all (\<lambda>c. length c = n) [c1, c2, c3, c4, c5, c6]"
  shows "make_random_gaussians np n flux_range xmean_range ymean_range xstddev_range
           ystddev_range amplitude_range random_state st =
         (Inr [(case amplitude_range of None \<Rightarrow> ''flux'' | Some r \<Rightarrow> ''amplitude'', c1),
               (''x_mean'', c2), (''y_mean'', c3), (''x_stddev'', c4), (''y_stddev'', c5),
               (''theta'', c6)],
          prng_put p g6 st)"
proof -
  let ?first = "case amplitude_range of None \<Rightarrow> ''flux'' | Some r \<Rightarrow> ''amplitude''"
  have first: "''x_mean'' \<noteq> ?first" "''y_mean'' \<noteq> ?first" "''x_stddev'' \<noteq> ?first"
    "''y_stddev'' \<noteq> ?first" "''theta'' \<noteq> ?first"
    by (simp_all split: option.splits)
  have len: "length c1 = n" "length c2 = n" "length c3 = n" "length c4 = n" "length c5 = n"
    "length c6 = n"
    using assms(8) by simp_all
  have s1: "(case amplitude_range of
               None \<Rightarrow> set_uniform np ''flux'' flux_range n (Inr [], prng_get p st)
             | Some r \<Rightarrow> set_uniform np ''amplitude'' r n (Inr [], prng_get p st)) =
            (Inr [(?first, c1)], g1)"
    using assms(2) by (cases amplitude_range) (simp_all add: set_uniform_def table_setitem_def)
  have s2: "set_uniform np ''x_mean'' xmean_range n (Inr [(?first, c1)], g1) =
            (Inr [(?first, c1), (''x_mean'', c2)], g2)"
    using assms(3) len first
    by (simp add: set_uniform_def table_setitem_def nrows_def colnames_def)
  have s3: "set_uniform np ''y_mean'' ymean_range n (Inr [(?first, c1), (''x_mean'', c2)], g2) =
            (Inr [(?first, c1), (''x_mean'', c2), (''y_mean'', c3)], g3)"
    using assms(4) len first
    by (simp add: set_uniform_def table_setitem_def nrows_def colnames_def)
  have s4: "set_uniform np ''x_stddev'' xstddev_range n
              (Inr [(?first, c1), (''x_mean'', c2), (''y_mean'', c3)], g3) =
            (Inr [(?first, c1), (''x_mean'', c2), (''y_mean'', c3), (''x_stddev'', c4)], g4)"
    using assms(5) len first
    by (simp add: set_uniform_def table_setitem_def nrows_def colnames_def)
  have s5: "set_uniform np ''y_stddev'' ystddev_range n
              (Inr [(?first, c1), (''x_mean'', c2), (''y_mean'', c3), (''x_stddev'', c4)], g4) =
            (Inr [(?first, c1), (''x_mean'', c2), (''y_mean'', c3), (''x_stddev'', c4),
                  (''y_stddev'', c5)], g5)"
    using assms(6) len first
    by (simp add: set_uniform_def table_setitem_def nrows_def colnames_def)
  have s6: "set_uniform np ''theta'' (0, 2 * pi) n
              (Inr [(?first, c1), (''x_mean'', c2), (''y_mean'', c3), (''x_stddev'', c4),
                    (''y_stddev'', c5)], g5) =
            (Inr [(?first, c1), (''x_mean'', c2), (''y_mean'', c3), (''x_stddev'', c4),
                  (''y_stddev'', c5), (''theta'', c6)], g6)"
    using assms(7) len first
    by (simp add: set_uniform_def table_setitem_def nrows_def colnames_def)
  show ?thesis
    unfolding make_random_gaussians_def Let_def by (simp only: assms(1) sum.case s1 s2 s3 s4 s5 s6 fst_conv snd_conv)
qed

text \<open>
  C6. \<^verbatim>\<open>make_random_gaussians\<close> draws six columns in turn from \<^verbatim>\<open>prng.uniform\<close>, each with
  the bounds of its range and the size \<^verbatim>\<open>n_sources\<close>, the last with the bounds 0 and
  \<^verbatim>\<open>2 * pi\<close>. When the draws return \<^verbatim>\<open>n_sources\<close> values each, as numpy's do, the table
  returned has \<^verbatim>\<open>n_sources\<close> rows and exactly the columns \<^verbatim>\<open>flux\<close> or \<^verbatim>\<open>amplitude\<close>, \<^verbatim>\<open>x_mean\<close>,
  \<^verbatim>\<open>y_mean\<close>, \<^verbatim>\<open>x_stddev\<close>, \<^verbatim>\<open>y_stddev\<close> and \<^verbatim>\<open>theta\<close>, holding the six draws: the first is
  \<^verbatim>\<open>flux\<close>, drawn within \<^verbatim>\<open>flux_range\<close>, when \<^verbatim>\<open>amplitude_range\<close> is \<^verbatim>\<open>None\<close>, and \<^verbatim>\<open>amplitude\<close>,
  drawn within \<^verbatim>\<open>amplitude_range\<close>, otherwise. In the second case \<^verbatim>\<open>flux_range\<close> is not read.
\<close>

theorem random_gaussians_table:
  "(check_random_state np random_state = Inr p \<longrightarrow>
    uniform np (fst (case amplitude_range of None \<Rightarrow> flux_range | Some r \<Rightarrow> r))
      (snd (case amplitude_range of None \<Rightarrow> flux_range | Some r \<Rightarrow> r)) n (prng_get p st) =
      Inr (c1, g1) \<longrightarrow>
    uniform np (fst xmean_range) (snd xmean_range) n g1 = Inr (c2, g2) \<longrightarrow>
    uniform np (fst ymean_range) (snd ymean_range) n g2 = Inr (c3, g3) \<longrightarrow>
    uniform np (fst xstddev_range) (snd xstddev_range) n g3 = Inr (c4, g4) \<longrightarrow>
    uniform np (fst ystddev_range) (snd ystddev_range) n g4 = Inr (c5, g5) \<longrightarrow>
    uniform np 0 (2 * pi) n g5 = Inr (c6, g6) \<longrightarrow>
    list_all (\<lambda>c. length c = n) [c1, c2, c3, c4, c5, c6] \<longrightarrow>
      make_random_gaussians np n flux_range xmean_range ymean_range xstddev_range ystddev_range
          amplitude_range random_state st =
        (Inr [(case amplitude_range of None \<Rightarrow> ''flux'' | Some r \<Rightarrow> ''amplitude'', c1),
              (''x_mean'', c2), (''y_mean'', c3), (''x_stddev'', c4), (''y_stddev'', c5),
              (''theta'', c6)],
         prng_put p g6 st)
      \<and> nrows [(case amplitude_range of None \<Rightarrow> ''flux'' | Some r \<Rightarrow> ''amplitude'', c1),
              (''x_mean'', c2), (''y_mean'', c3), (''x_stddev'', c4), (''y_stddev'', c5),
              (''theta'', c6)] = n)
   \<and> make_random_gaussians np n flux_range xmean_range ymean_range xstddev_range ystddev_range
         (Some r) random_state st =
       make_random_gaussians np n flux_range' xmean_range ymean_range xstddev_range ystddev_range
         (Some r) random_state st"
proof (intro conjI impI)
  assume a: "check_random_state np random_state = Inr p"
    "uniform np (fst (case amplitude_range of None \<Rightarrow> flux_range | Some r \<Rightarrow> r))
      (snd (case amplitude_range of None \<Rightarrow> flux_range | Some r \<Rightarrow> r)) n (prng_get p st) =
      Inr (c1, g1)"
    "uniform np (fst xmean_range) (snd xmean_range) n g1 = Inr (c2, g2)"
    "uniform np (fst ymean_range) (snd ymean_range) n g2 = Inr (c3, g3)"
    "uniform np (fst xstddev_range) (snd xstddev_range) n g3 = Inr (c4, g4)"
    "uniform np (fst ystddev_range) (snd ystddev_range) n g4 = Inr (c5, g5)"
    "uniform np 0 (2 * pi) n g5 = Inr (c6, g6)"
    "list_all (\<lambda>c. length c = n) [c1, c2, c3, c4, c5, c6]"
  show "make_random_gaussians np n flux_range xmean_range ymean_range xstddev_range ystddev_range
          amplitude_range random_state st =
        (Inr [(case amplitude_range of None \<Rightarrow> ''flux'' | Some r \<Rightarrow> ''amplitude'', c1),
              (''x_mean'', c2), (''y_mean'', c3), (''x_stddev'', c4), (''y_stddev'', c5),
              (''theta'', c6)],
         prng_put p g6 st)"
    using a by (rule random_gaussians_chain)
  show "nrows [(case amplitude_range of None \<Rightarrow> ''flux'' | Some r \<Rightarrow> ''amplitude'', c1),
              (''x_mean'', c2), (''y_mean'', c3), (''x_stddev'', c4), (''y_stddev'', c5),
              (''theta'', c6)] = n"
    using a(8) by (simp add: nrows_def)
next
  show "make_random_gaussians np n flux_range xmean_range ymean_range xstddev_range ystddev_range
         (Some r) random_state st =
       make_random_gaussians np n flux_range' xmean_range ymean_range xstddev_range ystddev_range
         (Some r) random_state st"
    by (simp add: make_random_gaussians_def split: sum.splits)
qed

theorem random_gaussians_table_witness:
  "check_random_state example_random (RS_Int 12345) = Inr (Fresh 12345)
   \<and> uniform example_random 500 1000 2 12345 =
       Inr (map (\<lambda>u. 500 + (1000 - 500) * u) (fst (lcg_draws 2 12345)), snd (lcg_draws 2 12345))
   \<and> (\<exists>c1 c2 c3 c4 c5 c6.
         list_all (\<lambda>c. length c = 2) [c1, c2, c3, c4, c5, c6]
         \<and> make_random_gaussians example_random 2 (500, 1000) (0, 500) (0, 300) (1, 5) (1, 5) None
             (RS_Int 12345) (\<lambda>r. 0) =
           (Inr [(''flux'', c1), (''x_mean'', c2), (''y_mean'', c3), (''x_stddev'', c4),
                 (''y_stddev'', c5), (''theta'', c6)], \<lambda>r. 0))"
proof -
  define g1 where "g1 = snd (lcg_draws 2 12345)"
  define g2 where "g2 = snd (lcg_draws 2 g1)"
  define g3 where "g3 = snd (lcg_draws 2 g2)"
  define g4 where "g4 = snd (lcg_draws 2 g3)"
  define g5 where "g5 = snd (lcg_draws 2 g4)"
  define g6 where "g6 = snd (lcg_draws 2 g5)"
  define c1 where "c1 = map (\<lambda>u. 500 + (1000 - 500) * u) (fst (lcg_draws 2 12345))"
  define c2 where "c2 = map (\<lambda>u. 0 + (500 - 0) * u) (fst (lcg_draws 2 g1))"
  define c3 where "c3 = map (\<lambda>u. 0 + (300 - 0) * u) (fst (lcg_draws 2 g2))"
  define c4 where "c4 = map (\<lambda>u. 1 + (5 - 1) * u) (fst (lcg_draws 2 g3))"
  define c5 where "c5 = map (\<lambda>u. 1 + (5 - 1) * u) (fst (lcg_draws 2 g4))"
  define c6 where "c6 = map (\<lambda>u. 0 + (2 * pi - 0) * u) (fst (lcg_draws 2 g5))"
  have u:
    "uniform example_random 500 1000 2 12345 = Inr (c1, g1)"
    "uniform example_random 0 500 2 g1 = Inr (c2, g2)"
    "uniform example_random 0 300 2 g2 = Inr (c3, g3)"
    "uniform example_random 1 5 2 g3 = Inr (c4, g4)"
    "uniform example_random 1 5 2 g4 = Inr (c5, g5)"
    "uniform example_random 0 (2 * pi) 2 g5 = Inr (c6, g6)"
    unfolding c1_def c2_def c3_def c4_def c5_def c6_def g1_def g2_def g3_def g4_def g5_def g6_def
    by (rule example_uniform)+
  have len: "list_all (\<lambda>c. length c = 2) [c1, c2, c3, c4, c5, c6]"
    by (simp add: c1_def c2_def c3_def c4_def c5_def c6_def lcg_draws_length)
  have p: "prng_get (Fresh 12345) (\<lambda>r. 0) = (12345 :: nat)"
    "prng_put (Fresh (12345 :: nat)) g6 (\<lambda>r. 0) = (\<lambda>r. 0)"
    by (simp_all add: prng_get_def prng_put_def)
  note w = random_gaussians_table [where np = example_random and random_state = "RS_Int 12345"
      and p = "Fresh 12345" and amplitude_range = None and flux_range = "(500, 1000)" and n = 2
      and st = "\<lambda>r. 0" and ?c1.0 = c1 and ?g1.0 = g1 and xmean_range = "(0, 500)" and ?c2.0 = c2
      and ?g2.0 = g2 and ymean_range = "(0, 300)" and ?c3.0 = c3 and ?g3.0 = g3
      and xstddev_range = "(1, 5)" and ?c4.0 = c4 and ?g4.0 = g4 and ystddev_range = "(1, 5)"
      and ?c5.0 = c5 and ?g5.0 = g5 and ?c6.0 = c6 and ?g6.0 = g6]
  from w example_check_random_state u len
  have "make_random_gaussians example_random 2 (500, 1000) (0, 500) (0, 300) (1, 5) (1, 5) None
             (RS_Int 12345) (\<lambda>r. 0) =
           (Inr [(''flux'', c1), (''x_mean'', c2), (''y_mean'', c3), (''x_stddev'', c4),
                 (''y_stddev'', c5), (''theta'', c6)], \<lambda>r. 0)"
    by (simp only: p fst_conv snd_conv option.case simp_thms)
  with len have "\<exists>c1 c2 c3 c4 c5 c6.
         list_all (\<lambda>c. length c = 2) [c1, c2, c3, c4, c5, c6]
         \<and> make_random_gaussians example_random 2 (500, 1000) (0, 500) (0, 300) (1, 5) (1, 5) None
             (RS_Int 12345) (\<lambda>r. 0) =
           (Inr [(''flux'', c1), (''x_mean'', c2), (''y_mean'', c3), (''x_stddev'', c4),
                 (''y_stddev'', c5), (''theta'', c6)], \<lambda>r. 0)"
    by blast
  with example_check_random_state u(1) show ?thesis
    unfolding c1_def g1_def by blast
qed

subsection \<open>Tables built column by column\<close>

lemma table_setitem_ok:
  assumes "table_ok T" "table_setitem T name col = Inr T'"
  shows "table_ok T'"
proof (cases "T = []")
  case True
  with assms(2) show ?thesis
    by (auto simp add: table_setitem_def table_ok_def colnames_def nrows_def)
next
  case False
  then obtain k v rest where T: "T = (k, v) # rest" by (cases T) auto
  from assms(2) False have len: "length col = nrows T"
    by (simp add: table_setitem_def split: if_splits)
  show ?thesis
  proof (cases "name \<in> set (colnames T)")
    case True
    with assms(2) False len
    have T': "T' = map (\<lambda>(k, v). if k = name then (k, col) else (k, v)) T"
      by (simp add: table_setitem_def)
    have "colnames T' = colnames T"
      unfolding T' colnames_def by (induction T) auto
    moreover have "nrows T' = nrows T"
      using len by (simp add: T' T nrows_def)
    moreover have "list_all (\<lambda>(name, col). length col = nrows T) T'"
      using assms(1) len unfolding T' table_ok_def list_all_iff by (auto split: if_splits)
    ultimately show ?thesis
      using assms(1) by (simp add: table_ok_def)
  next
    case False
    with assms(2) \<open>T \<noteq> []\<close> len have T': "T' = T @ [(name, col)]"
      by (simp add: table_setitem_def)
    have "nrows T' = nrows T"
      by (simp add: T' T nrows_def)
    then show ?thesis
      using assms(1) False len by (simp add: table_ok_def T' colnames_def)
  qed
qed

lemma table_setitem_colnames:
  assumes "table_setitem T name col = Inr T'"
  shows "set (colnames T') = insert name (set (colnames T))"
proof -
  have m: "map fst (map (\<lambda>(k, v). if k = name then (k, col) else (k, v)) T) = map fst T"
    by (induction T) auto
  consider "T' = [(name, col)]" "T = []"
    | "T' = map (\<lambda>(k, v). if k = name then (k, col) else (k, v)) T" "name \<in> set (colnames T)"
    | "T' = T @ [(name, col)]"
    using assms by (simp add: table_setitem_def split: if_splits)
  then show ?thesis
  proof cases
    case 1
    then show ?thesis by (simp add: colnames_def)
  next
    case 2
    then show ?thesis using m by (auto simp add: colnames_def)
  next
    case 3
    then show ?thesis by (simp add: colnames_def)
  qed
qed

lemma set_uniform_Inr:
  assumes "fst (set_uniform np name b n s) = Inr T'"
  shows "\<exists>T. fst s = Inr T \<and> (table_ok T \<longrightarrow> table_ok T')
           \<and> set (colnames T') = insert name (set (colnames T))"
proof -
  obtain r g where s: "s = (r, g)" by (cases s)
  with assms obtain T where r: "r = Inr T"
    by (cases r) (simp_all add: set_uniform_def)
  with assms s obtain col where "table_setitem T name col = Inr T'"
    by (auto simp add: set_uniform_def split: sum.splits)
  then show ?thesis
    using s r table_setitem_ok [of T name col T'] table_setitem_colnames [of T name col T']
    by simp
qed

lemma random_gaussians_ok:
  assumes "make_random_gaussians np n flux_range xmean_range ymean_range xstddev_range
             ystddev_range amplitude_range random_state st = (Inr T, st')"
  shows "table_ok T \<and> required_columns T"
proof -
  obtain prng where prng: "check_random_state np random_state = Inr prng"
    using assms by (cases "check_random_state np random_state")
      (simp_all add: make_random_gaussians_def)
  define s1 where "s1 = (case amplitude_range of
                      None \<Rightarrow> set_uniform np ''flux'' flux_range n (Inr [], prng_get prng st)
                    | Some amplitude_range \<Rightarrow>
                        set_uniform np ''amplitude'' amplitude_range n (Inr [], prng_get prng st))"
  define s2 where "s2 = set_uniform np ''x_mean'' xmean_range n s1"
  define s3 where "s3 = set_uniform np ''y_mean'' ymean_range n s2"
  define s4 where "s4 = set_uniform np ''x_stddev'' xstddev_range n s3"
  define s5 where "s5 = set_uniform np ''y_stddev'' ystddev_range n s4"
  have "fst (set_uniform np ''theta'' (0, 2 * pi) n s5) = Inr T"
    using assms prng
    by (simp add: make_random_gaussians_def Let_def s1_def s2_def s3_def s4_def s5_def)
  then obtain T5 where 5: "fst s5 = Inr T5"
    and ok5: "table_ok T5 \<longrightarrow> table_ok T"
    and n5: "set (colnames T) = insert ''theta'' (set (colnames T5))"
    using set_uniform_Inr [of np "''theta''" "(0, 2 * pi)" n s5 T] by blast
  from 5 obtain T4 where 4: "fst s4 = Inr T4"
    and ok4: "table_ok T4 \<longrightarrow> table_ok T5"
    and n4: "set (colnames T5) = insert ''y_stddev'' (set (colnames T4))"
    unfolding s5_def using set_uniform_Inr [of np "''y_stddev''" ystddev_range n s4 T5] by blast
  from 4 obtain T3 where 3: "fst s3 = Inr T3"
    and ok3: "table_ok T3 \<longrightarrow> table_ok T4"
    and n3: "set (colnames T4) = insert ''x_stddev'' (set (colnames T3))"
    unfolding s4_def using set_uniform_Inr [of np "''x_stddev''" xstddev_range n s3 T4] by blast
  from 3 obtain T2 where 2: "fst s2 = Inr T2"
    and ok2: "table_ok T2 \<longrightarrow> table_ok T3"
    and n2: "set (colnames T3) = insert ''y_mean'' (set (colnames T2))"
    unfolding s3_def using set_uniform_Inr [of np "''y_mean''" ymean_range n s2 T3] by blast
  from 2 obtain T1 where 1: "fst s1 = Inr T1"
    and ok1: "table_ok T1 \<longrightarrow> table_ok T2"
    and n1: "set (colnames T2) = insert ''x_mean'' (set (colnames T1))"
    unfolding s2_def using set_uniform_Inr [of np "''x_mean''" xmean_range n s1 T2] by blast
  have e: "table_ok []" "colnames [] = []"
    by (simp_all add: table_ok_def colnames_def)
  have 0: "table_ok T1 \<and> (''flux'' \<in> set (colnames T1) \<or> ''amplitude'' \<in> set (colnames T1))"
  proof (cases amplitude_range)
    case None
    with 1 have "fst (set_uniform np ''flux'' flux_range n (Inr [], prng_get prng st)) = Inr T1"
      by (simp add: s1_def)
    then show ?thesis
      using set_uniform_Inr [of np "''flux''" flux_range n "(Inr [], prng_get prng st)" T1] e
      by auto
  next
    case (Some r)
    with 1 have "fst (set_uniform np ''amplitude'' r n (Inr [], prng_get prng st)) = Inr T1"
      by (simp add: s1_def)
    then show ?thesis
      using set_uniform_Inr [of np "''amplitude''" r n "(Inr [], prng_get prng st)" T1] e
      by auto
  qed
  with ok1 ok2 ok3 ok4 ok5 have "table_ok T" by blast
  moreover have "required_columns T"
    using 0 n1 n2 n3 n4 n5 by (auto simp add: required_columns_def)
  ultimately show ?thesis ..
qed

lemma example_random_gaussians:
  "\<exists>T. make_random_gaussians example_random n fr xr yr sxr syr ar (RS_Int 12345) st = (Inr T, st)"
proof -
  have "prng_put (Fresh (12345 :: nat)) g st = st" for g
    by (simp add: prng_put_def)
  then show ?thesis
    using random_gaussians_chain [where np = example_random and random_state = "RS_Int 12345"
        and p = "Fresh 12345" and amplitude_range = ar and flux_range = fr and n = n and st = st
        and xmean_range = xr and ymean_range = yr and xstddev_range = sxr and ystddev_range = syr,
        OF example_check_random_state example_uniform example_uniform example_uniform
          example_uniform example_uniform example_uniform]
    by (simp add: lcg_draws_length)
qed

subsection \<open>The canned images\<close>

lemma returned_add_arrays:
  assumes "well_shaped a" "well_shaped b" "shape b = shape a"
  shows "returned_add (Plain (Array a)) (Array b) = Inr (Plain (Array (add_arrays a b)))"
  using np_add_same_shape [OF assms] by (simp add: returned_add_def)

lemma data_iadd_arrays:
  assumes "hdu_data h = Array a" "well_shaped a" "well_shaped b" "shape b = shape a"
  shows "data_iadd (ImageHDU h) (Array b) =
           Inr (ImageHDU (h\<lparr>hdu_data := Array (add_arrays a b)\<rparr>))"
  using np_iadd_same_shape [OF assms(2-4)] assms(1) by (simp add: data_iadd_def)

lemma gaussians4_table_built:
  "bindE (table_setitem [] ''amplitude'' [50, 70, 150, 210]) (\<lambda>t.
   bindE (table_setitem t ''x_mean'' [160, 25, 150, 90]) (\<lambda>t.
   bindE (table_setitem t ''y_mean'' [70, 40, 25, 60]) (\<lambda>t.
   bindE (table_setitem t ''x_stddev'' [15.2, 5.1, 3, 8.1]) (\<lambda>t.
   bindE (table_setitem t ''y_stddev'' [2.6, 2.5, 3, 4.7]) (\<lambda>t.
   table_setitem t ''theta'' (map (\<lambda>d. d * pi / 180) [145, 20, 0, 60])))))) =
   Inr gaussians4_table"
  by (simp add: table_setitem_def nrows_def colnames_def gaussians4_table_def)

lemma gaussians4_table_ok: "table_ok gaussians4_table" "required_columns gaussians4_table"
  by (simp_all add: gaussians4_table_def table_ok_def required_columns_def colnames_def nrows_def)

text \<open>
  C7. \<^verbatim>\<open>make_100gaussians_image\<close> is the image that \<^verbatim>\<open>make_gaussian_sources\<close> makes, over the
  shape (300, 500), of the table that \<^verbatim>\<open>make_random_gaussians\<close> returns for 100 sources, the
  ranges (500, 1000), (0, 500), (0, 300), (1, 5), (1, 5) and the seed 12345, plus, pixel by
  pixel, the noise image of \<^verbatim>\<open>make_noise_image\<close> for that shape, Gaussian noise of mean 5 and
  standard deviation 2 and the seed 12345. \<^verbatim>\<open>make_4gaussians_image\<close> is the image that
  \<^verbatim>\<open>make_gaussian_sources\<close> makes of its table of four sources over the shape (100, 200),
  plus the noise image of mean 5 and standard deviation 5; with \<^verbatim>\<open>hdu=True\<close> the noise is
  added to the data of the \<^verbatim>\<open>ImageHDU\<close>. The noise images have the shape asked for, as
  numpy's samplers return them.
\<close>

theorem canned_images_are_compositions:
  "(make_random_gaussians np 100 (500, 1000) (0, 500) (0, 300) (1, 5) (1, 5) None (RS_Int 12345) st =
      (Inr table, st1) \<longrightarrow>
    make_noise_image np ap (300, 500) ''gaussian'' (Some 5) (Some 2) None (RS_Int 12345) st1 =
      (Inr (Array noise), st2) \<longrightarrow>
    shape noise = (300, 500) \<longrightarrow> well_shaped noise \<longrightarrow>
      (\<exists>image1. make_gaussian_sources ap (300, 500) table 1 None False False None =
                   Inr (Plain (Array image1))
         \<and> make_100gaussians_image np ap st =
             (Inr (Plain (Array (add_arrays image1 noise))), st2)))
   \<and> (make_noise_image np ap (100, 200) ''gaussian'' (Some 5) (Some 5) None (RS_Int 12345) st =
        (Inr (Array noise'), st') \<longrightarrow>
      shape noise' = (100, 200) \<longrightarrow> well_shaped noise' \<longrightarrow>
        (\<exists>sources. make_gaussian_sources ap (100, 200) gaussians4_table 1 None False False
                      wcsheader = Inr (Plain (Array sources))
           \<and> make_4gaussians_image np ap False False wcsheader st =
               (Inr (Plain (Array (add_arrays sources noise'))), st'))
        \<and> (make_gaussian_sources ap (100, 200) gaussians4_table 1 None True wcs wcsheader =
             Inr (ImageHDU h) \<longrightarrow>
           hdu_data h = Array a \<longrightarrow> shape a = (100, 200) \<longrightarrow> well_shaped a \<longrightarrow>
             make_4gaussians_image np ap True wcs wcsheader st =
               (Inr (ImageHDU (h\<lparr>hdu_data := Array (add_arrays a noise')\<rparr>)), st')))"
proof (intro conjI impI)
  assume rg: "make_random_gaussians np 100 (500, 1000) (0, 500) (0, 300) (1, 5) (1, 5) None
      (RS_Int 12345) st = (Inr table, st1)"
    and ni: "make_noise_image np ap (300, 500) ''gaussian'' (Some 5) (Some 2) None (RS_Int 12345)
      st1 = (Inr (Array noise), st2)"
    and noise: "shape noise = (300, 500)" "well_shaped noise"
  have "table_ok table \<and> required_columns table"
    using rg by (rule random_gaussians_ok)
  then obtain image1 where image1:
    "make_gaussian_sources ap (300, 500) table 1 None False False None = Inr (Plain (Array image1))"
    "shape image1 = (300, 500)" "well_shaped image1"
    using gaussian_sources_plain [of table ap "(300, 500)" None] by blast
  have "returned_add (Plain (Array image1)) (Array noise) =
      Inr (Plain (Array (add_arrays image1 noise)))"
    using image1(2,3) noise by (intro returned_add_arrays) simp_all
  then have "make_100gaussians_image np ap st =
      (Inr (Plain (Array (add_arrays image1 noise))), st2)"
    using rg ni image1(1) by (simp add: make_100gaussians_image_def Let_def)
  with image1(1) show "\<exists>image1. make_gaussian_sources ap (300, 500) table 1 None False False None =
                   Inr (Plain (Array image1))
         \<and> make_100gaussians_image np ap st =
             (Inr (Plain (Array (add_arrays image1 noise))), st2)"
    by blast
next
  assume ni: "make_noise_image np ap (100, 200) ''gaussian'' (Some 5) (Some 5) None (RS_Int 12345)
      st = (Inr (Array noise'), st')"
    and noise: "shape noise' = (100, 200)" "well_shaped noise'"
  obtain sources where sources:
    "make_gaussian_sources ap (100, 200) gaussians4_table 1 None False False wcsheader =
       Inr (Plain (Array sources))"
    "shape sources = (100, 200)" "well_shaped sources"
    using gaussian_sources_plain [OF gaussians4_table_ok, of ap "(100, 200)" wcsheader] by blast
  have "returned_add (Plain (Array sources)) (Array noise') =
      Inr (Plain (Array (add_arrays sources noise')))"
    using sources(2,3) noise by (intro returned_add_arrays) simp_all
  then have "make_4gaussians_image np ap False False wcsheader st =
      (Inr (Plain (Array (add_arrays sources noise'))), st')"
    using ni sources(1)
    by (simp only: make_4gaussians_image_def gaussians4_table_built Let_def sum.case prod.case
        if_False)
  with sources(1) show "\<exists>sources. make_gaussian_sources ap (100, 200) gaussians4_table 1 None
        False False wcsheader = Inr (Plain (Array sources))
           \<and> make_4gaussians_image np ap False False wcsheader st =
               (Inr (Plain (Array (add_arrays sources noise'))), st')"
    by blast
next
  assume ni: "make_noise_image np ap (100, 200) ''gaussian'' (Some 5) (Some 5) None (RS_Int 12345)
      st = (Inr (Array noise'), st')"
    and noise: "shape noise' = (100, 200)" "well_shaped noise'"
    and gs: "make_gaussian_sources ap (100, 200) gaussians4_table 1 None True wcs wcsheader =
      Inr (ImageHDU h)"
    and h: "hdu_data h = Array a" "shape a = (100, 200)" "well_shaped a"
  have "data_iadd (ImageHDU h) (Array noise') =
      Inr (ImageHDU (h\<lparr>hdu_data := Array (add_arrays a noise')\<rparr>))"
    using h noise by (intro data_iadd_arrays) simp_all
  then show "make_4gaussians_image np ap True wcs wcsheader st =
      (Inr (ImageHDU (h\<lparr>hdu_data := Array (add_arrays a noise')\<rparr>)), st')"
    using ni gs
    by (simp only: make_4gaussians_image_def gaussians4_table_built Let_def sum.case prod.case
        if_True)
qed

theorem canned_images_are_compositions_witness:
  "\<exists>table noise noise' h a.
     make_random_gaussians example_random 100 (500, 1000) (0, 500) (0, 300) (1, 5) (1, 5) None
         (RS_Int 12345) (\<lambda>r. 0) = (Inr table, \<lambda>r. 0)
     \<and> make_noise_image example_random example_astropy (300, 500) ''gaussian'' (Some 5) (Some 2)
         None (RS_Int 12345) (\<lambda>r. 0) = (Inr (Array noise), \<lambda>r. 0)
     \<and> shape noise = (300, 500) \<and> well_shaped noise
     \<and> (\<exists>image1. make_gaussian_sources example_astropy (300, 500) table 1 None False False None =
                    Inr (Plain (Array image1))
          \<and> make_100gaussians_image example_random example_astropy (\<lambda>r. 0) =
              (Inr (Plain (Array (add_arrays image1 noise))), \<lambda>r. 0))
     \<and> make_noise_image example_random example_astropy (100, 200) ''gaussian'' (Some 5) (Some 5)
         None (RS_Int 12345) (\<lambda>r. 0) = (Inr (Array noise'), \<lambda>r. 0)
     \<and> shape noise' = (100, 200) \<and> well_shaped noise'
     \<and> (\<exists>sources. make_gaussian_sources example_astropy (100, 200) gaussians4_table 1 None False
                     False None = Inr (Plain (Array sources))
          \<and> make_4gaussians_image example_random example_astropy False False None (\<lambda>r. 0) =
              (Inr (Plain (Array (add_arrays sources noise'))), \<lambda>r. 0))
     \<and> make_gaussian_sources example_astropy (100, 200) gaussians4_table 1 None True False None =
         Inr (ImageHDU h)
     \<and> hdu_data h = Array a \<and> shape a = (100, 200) \<and> well_shaped a
     \<and> make_4gaussians_image example_random example_astropy True False None (\<lambda>r. 0) =
         (Inr (ImageHDU (h\<lparr>hdu_data := Array (add_arrays a noise')\<rparr>)), \<lambda>r. 0)"
proof -
  let ?st = "\<lambda>r :: rng_ref. 0 :: nat"
  obtain table where table:
    "make_random_gaussians example_random 100 (500, 1000) (0, 500) (0, 300) (1, 5) (1, 5) None
       (RS_Int 12345) ?st = (Inr table, ?st)"
    using example_random_gaussians [of 100 "(500, 1000)" "(0, 500)" "(0, 300)" "(1, 5)" "(1, 5)"
        None ?st] by blast
  define noise where "noise = fst (lcg_array (\<lambda>u. 5 + 2 * (2 * u - 1)) (300, 500) 12345)"
  define noise' where "noise' = fst (lcg_array (\<lambda>u. 5 + 5 * (2 * u - 1)) (100, 200) 12345)"
  have n1: "make_noise_image example_random example_astropy (300, 500) ''gaussian'' (Some 5)
      (Some 2) None (RS_Int 12345) ?st = (Inr (Array noise), ?st)"
    unfolding noise_def by (rule example_gaussian_noise) simp
  have n2: "make_noise_image example_random example_astropy (100, 200) ''gaussian'' (Some 5)
      (Some 5) None (RS_Int 12345) ?st = (Inr (Array noise'), ?st)"
    unfolding noise'_def by (rule example_gaussian_noise) simp
  have s1: "shape noise = (300, 500)" "well_shaped noise"
    unfolding noise_def by (rule lcg_array_shaped)+
  have s2: "shape noise' = (100, 200)" "well_shaped noise'"
    unfolding noise'_def by (rule lcg_array_shaped)+
  obtain a where a:
    "make_gaussian_sources example_astropy (100, 200) gaussians4_table 1 None True False None =
       finish_image example_astropy (100, 200) None True False None a"
    "shape a = (100, 200)" "well_shaped a"
    using gaussian_sources_array [OF gaussians4_table_ok, of 1 example_astropy "(100, 200)" None
        True False None] by blast
  define h where "h = \<lparr>hdu_data = Array a, hdu_header = None\<rparr>"
  have "finish_image example_astropy (100, 200) None True False None a = Inr (ImageHDU h)"
    by (simp add: finish_image_def make_header_def with_unit_def example_astropy_simps h_def)
  with a(1) have gs:
    "make_gaussian_sources example_astropy (100, 200) gaussians4_table 1 None True False None =
       Inr (ImageHDU h)"
    by simp
  have hd: "hdu_data h = Array a" by (simp add: h_def)
  note w = canned_images_are_compositions [of example_random ?st table ?st example_astropy noise
      ?st noise' ?st None False h a]
  from w table n1 s1
  have c1: "\<exists>image1. make_gaussian_sources example_astropy (300, 500) table 1 None False False None =
                    Inr (Plain (Array image1))
          \<and> make_100gaussians_image example_random example_astropy ?st =
              (Inr (Plain (Array (add_arrays image1 noise))), ?st)"
    by blast
  from w n2 s2
  have c2: "\<exists>sources. make_gaussian_sources example_astropy (100, 200) gaussians4_table 1 None False
                     False None = Inr (Plain (Array sources))
          \<and> make_4gaussians_image example_random example_astropy False False None ?st =
              (Inr (Plain (Array (add_arrays sources noise'))), ?st)"
    by blast
  from w n2 s2 gs hd a(2,3)
  have c3: "make_4gaussians_image example_random example_astropy True False None ?st =
         (Inr (ImageHDU (h\<lparr>hdu_data := Array (add_arrays a noise')\<rparr>)), ?st)"
    by blast
  from table n1 s1 c1 n2 s2 c2 gs hd a(2,3) c3 show ?thesis by blast
qed

end
